theory Spec2Isabelle
  imports Complex_Main
begin

section \<open>Numbers and labels\<close>

text \<open>
  The analysers and the scoring engine compute with JavaScript numbers. A finite number is
  modelled as a real. The histogram analyser and the keeper probability round every
  operation to a double, since their results depend on the rounding; the other functions
  compute exactly. The sub-scores and the weighted average of the scoring engine are over
  finite numbers only; the pixel analysers and the keeper probability use a number type with
  the three special values.

  Labels ('motion', 'reject', ...) are the source's strings.
\<close>

definition Math_round :: "real \<Rightarrow> real" where
  \<comment> \<open>Math.round: the nearest integer, a half rounds up.\<close>
  "Math_round x = of_int \<lfloor>x + 1 / 2\<rfloor>"

definition orDefault :: "real \<Rightarrow> real \<Rightarrow> real" where
  \<comment> \<open>\<open>x || d\<close> on a finite number: zero is falsy.\<close>
  "orDefault x d = (if x = 0 then d else x)"


section \<open>Numbers with the special values\<close>

text \<open>
  The pixel analysers divide, and a JavaScript division never fails: 0/0 is NaN and x/0 is
  an infinity. A number is a finite real or one of the three special values. Arithmetic
  and comparison follow IEEE 754 on the special values; on finite values they are the exact
  operations. Zero has no sign in this model (x/0 has the sign of x).
\<close>

datatype jsnum = Fin real | PosInf | NegInf | NaN


fun jsneg :: "jsnum \<Rightarrow> jsnum" where
  "jsneg (Fin a) = Fin (- a)"
| "jsneg PosInf = NegInf"
| "jsneg NegInf = PosInf"
| "jsneg NaN = NaN"

fun jsadd :: "jsnum \<Rightarrow> jsnum \<Rightarrow> jsnum" where
  "jsadd (Fin a) (Fin b) = Fin (a + b)"
| "jsadd NaN _ = NaN"
| "jsadd _ NaN = NaN"
| "jsadd PosInf NegInf = NaN"
| "jsadd NegInf PosInf = NaN"
| "jsadd PosInf _ = PosInf"
| "jsadd _ PosInf = PosInf"
| "jsadd NegInf _ = NegInf"
| "jsadd _ NegInf = NegInf"

definition jssub :: "jsnum \<Rightarrow> jsnum \<Rightarrow> jsnum" where
  [simp]: "jssub x y = jsadd x (jsneg y)"

fun jsmul :: "jsnum \<Rightarrow> jsnum \<Rightarrow> jsnum" where
  "jsmul (Fin a) (Fin b) = Fin (a * b)"
| "jsmul NaN _ = NaN"
| "jsmul _ NaN = NaN"
| "jsmul PosInf (Fin b) = (if b = 0 then NaN else if b > 0 then PosInf else NegInf)"
| "jsmul NegInf (Fin b) = (if b = 0 then NaN else if b > 0 then NegInf else PosInf)"
| "jsmul (Fin a) PosInf = (if a = 0 then NaN else if a > 0 then PosInf else NegInf)"
| "jsmul (Fin a) NegInf = (if a = 0 then NaN else if a > 0 then NegInf else PosInf)"
| "jsmul PosInf PosInf = PosInf"
| "jsmul NegInf NegInf = PosInf"
| "jsmul PosInf NegInf = NegInf"
| "jsmul NegInf PosInf = NegInf"

fun jsdiv :: "jsnum \<Rightarrow> jsnum \<Rightarrow> jsnum" where
  "jsdiv (Fin a) (Fin b) =
     (if b = 0 then (if a = 0 then NaN else if a > 0 then PosInf else NegInf)
      else Fin (a / b))"
| "jsdiv NaN _ = NaN"
| "jsdiv _ NaN = NaN"
| "jsdiv (Fin a) PosInf = Fin 0"
| "jsdiv (Fin a) NegInf = Fin 0"
| "jsdiv PosInf (Fin b) = (if b \<ge> 0 then PosInf else NegInf)"
| "jsdiv NegInf (Fin b) = (if b \<ge> 0 then NegInf else PosInf)"
| "jsdiv _ _ = NaN"

definition jsinv :: "jsnum \<Rightarrow> jsnum" where
  [simp]: "jsinv x = jsdiv (Fin 1) x"

fun jsabs :: "jsnum \<Rightarrow> jsnum" where
  "jsabs (Fin a) = Fin \<bar>a\<bar>"
| "jsabs PosInf = PosInf"
| "jsabs NegInf = PosInf"
| "jsabs NaN = NaN"

fun jslt :: "jsnum \<Rightarrow> jsnum \<Rightarrow> bool" where
  "jslt (Fin a) (Fin b) = (a < b)"
| "jslt NaN _ = False"
| "jslt _ NaN = False"
| "jslt _ NegInf = False"
| "jslt PosInf _ = False"
| "jslt NegInf _ = True"
| "jslt _ PosInf = True"

fun jsle :: "jsnum \<Rightarrow> jsnum \<Rightarrow> bool" where
  "jsle (Fin a) (Fin b) = (a \<le> b)"
| "jsle NaN _ = False"
| "jsle _ NaN = False"
| "jsle NegInf _ = True"
| "jsle _ PosInf = True"
| "jsle _ _ = False"

instantiation jsnum :: "{plus, minus, uminus, times, inverse, abs, ord}"
begin

definition uminus_jsnum_def [simp]: "- x = jsneg x"
definition plus_jsnum_def [simp]: "x + y = jsadd x y"
definition minus_jsnum_def [simp]: "x - y = jssub x y"
definition times_jsnum_def [simp]: "x * y = jsmul x y"
definition divide_jsnum_def [simp]: "x div y = jsdiv x y"
definition inverse_jsnum_def [simp]: "inverse x = jsinv x"
definition abs_jsnum_def [simp]: "\<bar>x\<bar> = jsabs x"
definition less_jsnum_def [simp]: "x < y = jslt x y"
definition less_eq_jsnum_def [simp]: "x \<le> y = jsle x y"

instance ..

end

fun jsor :: "jsnum \<Rightarrow> jsnum \<Rightarrow> jsnum" where
  \<comment> \<open>\<open>x || d\<close>: zero and NaN are falsy.\<close>
  "jsor (Fin a) d = (if a = 0 then d else Fin a)"
| "jsor NaN d = d"
| "jsor x d = x"

fun Math_max :: "jsnum \<Rightarrow> jsnum \<Rightarrow> jsnum" where
  "Math_max NaN _ = NaN"
| "Math_max _ NaN = NaN"
| "Math_max x y = (if x < y then y else x)"

fun Math_min :: "jsnum \<Rightarrow> jsnum \<Rightarrow> jsnum" where
  "Math_min NaN _ = NaN"
| "Math_min _ NaN = NaN"
| "Math_min x y = (if y < x then y else x)"

fun jsround :: "jsnum \<Rightarrow> jsnum" where
  \<comment> \<open>Math.round on a number that may be special.\<close>
  "jsround (Fin a) = Fin (Math_round a)"
| "jsround x = x"

fun Math_sqrt :: "jsnum \<Rightarrow> jsnum" where
  "Math_sqrt (Fin a) = (if a < 0 then NaN else Fin (sqrt a))"
| "Math_sqrt PosInf = PosInf"
| "Math_sqrt _ = NaN"

fun Math_sin :: "jsnum \<Rightarrow> jsnum" where
  "Math_sin (Fin a) = Fin (sin a)"
| "Math_sin _ = NaN"

fun Math_cos :: "jsnum \<Rightarrow> jsnum" where
  "Math_cos (Fin a) = Fin (cos a)"
| "Math_cos _ = NaN"

definition atan2 :: "real \<Rightarrow> real \<Rightarrow> real" where
  \<comment> \<open>Math.atan2(y, x) on finite numbers.\<close>
  "atan2 y x =
     (if x > 0 then arctan (y / x)
      else if x < 0 then (if y \<ge> 0 then arctan (y / x) + pi else arctan (y / x) - pi)
      else if y > 0 then pi / 2
      else if y < 0 then - pi / 2
      else 0)"

section \<open>Pixel buffers\<close>

text \<open>
  A grayscale buffer is the list of its bytes, row after row, with its width and height.
  It is well formed when both are positive and the list has width * height bytes.
  The loops of the analysers read inside the list for a well-formed buffer; \<open>px\<close> is such
  a read. \<open>pxAt\<close> is a read at an index that the code computes from a random number and
  that may lie outside: there the read gives undefined, and arithmetic on it NaN.
\<close>

definition wellFormed :: "nat list \<Rightarrow> nat \<Rightarrow> nat \<Rightarrow> bool" where
  "wellFormed data width height =
     (0 < width \<and> 0 < height \<and> length data = width * height \<and> list_all (\<lambda>v. v < 256) data)"

definition px :: "nat list \<Rightarrow> nat \<Rightarrow> int" where
  "px data i = int (data ! i)"

definition pxAt :: "nat list \<Rightarrow> int \<Rightarrow> jsnum" where
  "pxAt data i = (if 0 \<le> i \<and> i < int (length data) then Fin (real (data ! nat i)) else NaN)"

definition interior :: "nat \<Rightarrow> nat \<Rightarrow> (nat \<times> nat) list" where
  \<comment> \<open>\<open>for y = 1 .. height - 2, for x = 1 .. width - 2\<close>, as pairs (y, x) in the loop's order.\<close>
  "interior width height = List.product [1..<height - 1] [1..<width - 1]"

section \<open>Double arithmetic\<close>

text \<open>
  Where a claim depends on how a result is rounded, the arithmetic is the one of IEEE 754
  doubles: each operation gives the double nearest to the exact result, a tie going to the
  even significand. \<open>fl x\<close> is that double, for a real x: with e the exponent of x, the
  doubles around x are the multiples of 2 ^ (e - 52). The model has neither overflow nor
  subnormal numbers: it is the double arithmetic for magnitudes between 2 ^ -1022 and
  2 ^ 1024, which the numbers of the analysers stay in. A decimal literal of the
  source, such as 0.15, is the double nearest to it: \<open>fl 0.15\<close>.
\<close>

definition round_even :: "real \<Rightarrow> int" where
  \<comment> \<open>The nearest integer, a half going to the even one.\<close>
  "round_even y =
     (let f = \<lfloor>y\<rfloor>
      in if y - of_int f < 1 / 2 then f
         else if y - of_int f > 1 / 2 then f + 1
         else if even f then f else f + 1)"

definition expo :: "real \<Rightarrow> int" where
  \<comment> \<open>The binary exponent: 2 ^ expo x <= |x| < 2 ^ (expo x + 1).\<close>
  "expo x = \<lfloor>log 2 \<bar>x\<bar>\<rfloor>"

definition ulp :: "real \<Rightarrow> real" where
  \<comment> \<open>The distance between the doubles of the binade of x.\<close>
  "ulp x = 2 powr (of_int (expo x) - 52)"

definition fl :: "real \<Rightarrow> real" where
  "fl x = (if x = 0 then 0 else of_int (round_even (x / ulp x)) * ulp x)"

fun flj :: "jsnum \<Rightarrow> jsnum" where
  \<comment> \<open>Rounding the result of an operation that may be special.\<close>
  "flj (Fin a) = Fin (fl a)"
| "flj x = x"
section \<open>Configuration (config/default.js)\<close>

definition weights_landscape :: "(string \<times> real) list" where
  "weights_landscape =
     [(''sharpness'', 0.20), (''exposure'', 0.25), (''composition'', 0.25),
      (''dynamicRange'', 0.15), (''horizonLevel'', 0.10), (''noise'', 0.05)]"

definition weights_general :: "(string \<times> real) list" where
  "weights_general =
     [(''sharpness'', 0.25), (''focusAccuracy'', 0.15), (''exposure'', 0.25),
      (''composition'', 0.15), (''noise'', 0.10), (''dynamicRange'', 0.10)]"

definition objectPrototypeNames :: "string list" where
  \<comment> \<open>The members that every object inherits from Object.prototype.\<close>
  "objectPrototypeNames =
     [''constructor'', ''toString'', ''toLocaleString'', ''valueOf'', ''hasOwnProperty'',
      ''isPrototypeOf'', ''propertyIsEnumerable'', ''__proto__'', ''__defineGetter__'',
      ''__defineSetter__'', ''__lookupGetter__'', ''__lookupSetter__'']"

definition config_weights :: "string \<Rightarrow> (string \<times> real) list option" where
  \<comment> \<open>\<open>config.weights[mode]\<close>, \<open>None\<close> when it is undefined. For the name of an inherited
      member the source reads a function or the prototype object: a truthy value with no
      entry of its own, here the empty weight map.\<close>
  "config_weights m =
     (if m = ''landscape'' then Some weights_landscape
      else if m = ''general'' then Some weights_general
      else if m \<in> set objectPrototypeNames then Some []
      else None)"

definition thresholds_select :: real where "thresholds_select = 72"
definition thresholds_good :: real where "thresholds_good = 58"
definition thresholds_review :: real where "thresholds_review = 45"
definition thresholds_maybe :: real where "thresholds_maybe = 30"

definition autoReject_motionBlurSeverity :: real where "autoReject_motionBlurSeverity = 0.85"
definition autoReject_defocusSeverity :: real where "autoReject_defocusSeverity = 0.85"
definition autoReject_highlightClip :: real where "autoReject_highlightClip = 25"
definition autoReject_shadowClip :: real where "autoReject_shadowClip = 25"

definition config_folders :: "string \<Rightarrow> string" where
  "config_folders c = (if c = ''select'' then ''selects'' else c)"

section \<open>Scoring engine: inputs\<close>

text \<open>
  The engine results as the scoring engine reads them. Each of the four analyses may be
  missing (\<open>None\<close>). Of an analysis only the fields the scoring engine reads are kept.
\<close>

record exifInfo =
  exif_iso :: "real option"        \<comment> \<open>exif.exposure.iso\<close>
  exif_continuous :: bool          \<comment> \<open>exif.focus.continuous\<close>

record sharpnessInfo =
  sh_score :: real                 \<comment> \<open>sharpness.overall.score\<close>
  sh_sharpestRegions :: "string list"  \<comment> \<open>sharpness.focusPlane.sharpestRegions\<close>
  sh_blurType :: string            \<comment> \<open>sharpness.blur.type\<close>
  sh_blurSeverity :: real          \<comment> \<open>sharpness.blur.severity\<close>

record histogramInfo =
  hi_score :: real                 \<comment> \<open>histogram.score\<close>
  hi_drPercentage :: real          \<comment> \<open>histogram.dynamicRange.percentage\<close>
  hi_zonesShadows :: "real option" \<comment> \<open>histogram.exposure.zones.shadows\<close>
  hi_assessment :: string          \<comment> \<open>histogram.exposure.assessment\<close>
  hi_highlightsClipped :: real     \<comment> \<open>histogram.clipping.highlights.clipped\<close>
  hi_highlightsSeverity :: "string option"  \<comment> \<open>histogram.clipping.highlights.severity\<close>
  hi_shadowsClipped :: real        \<comment> \<open>histogram.clipping.shadows.clipped\<close>

record compositionInfo =
  co_score :: real                 \<comment> \<open>composition.score.score\<close>
  co_horizonDetected :: bool       \<comment> \<open>composition.horizon.detected\<close>
  co_horizonLevel :: bool          \<comment> \<open>composition.horizon.level\<close>
  co_horizonTilt :: real           \<comment> \<open>composition.horizon.tilt\<close>

record analyses =
  an_exif :: "exifInfo option"
  an_histogram :: "histogramInfo option"
  an_sharpness :: "sharpnessInfo option"
  an_composition :: "compositionInfo option"

record options =
  op_mode :: string
  op_customWeights :: "(string \<times> real) list option"

section \<open>Scoring engine: sub-scores\<close>

definition scoring_calculateSharpnessScore :: "sharpnessInfo option \<Rightarrow> real" where
  "scoring_calculateSharpnessScore sharpness =
     (case sharpness of
        None \<Rightarrow> 50
      | Some s \<Rightarrow> max 0 (min 100 (Math_round (orDefault (sh_score s) 0))))"

definition scoring_calculateExposureScore :: "histogramInfo option \<Rightarrow> real" where
  "scoring_calculateExposureScore histogram =
     (case histogram of None \<Rightarrow> 50 | Some h \<Rightarrow> orDefault (hi_score h) 50)"

definition calculateFocusAccuracyScore :: "sharpnessInfo option \<Rightarrow> exifInfo option \<Rightarrow> real" where
  "calculateFocusAccuracyScore sharpness exif =
     (case sharpness of
        None \<Rightarrow> 50
      | Some s \<Rightarrow>
          (let score0 = (if ''center'' \<in> set (sh_sharpestRegions s) then 85
                         else if length (sh_sharpestRegions s) > 0 then 75
                         else 70);
               score1 = (if (case exif of None \<Rightarrow> False | Some e \<Rightarrow> exif_continuous e)
                         then score0 - 5 else score0)
           in max 0 (min 100 score1)))"

definition exifIso :: "exifInfo option \<Rightarrow> real option" where
  \<comment> \<open>\<open>exif?.exposure?.iso\<close> when it is truthy.\<close>
  "exifIso exif =
     (case exif of
        None \<Rightarrow> None
      | Some e \<Rightarrow> (case exif_iso e of None \<Rightarrow> None
                    | Some i \<Rightarrow> if i = 0 then None else Some i))"

definition calculateNoiseScore :: "exifInfo option \<Rightarrow> histogramInfo option \<Rightarrow> real" where
  "calculateNoiseScore exif histogram =
     (case exifIso exif of
        None \<Rightarrow> 80
      | Some isoVal \<Rightarrow>
          (let score0 = (if isoVal \<le> 200 then 100
                         else if isoVal \<le> 400 then 95
                         else if isoVal \<le> 800 then 85
                         else if isoVal \<le> 1600 then 75
                         else if isoVal \<le> 3200 then 60
                         else if isoVal \<le> 6400 then 45
                         else if isoVal \<le> 12800 then 30
                         else 15);
               shadowsPushed =
                 (case histogram of
                    None \<Rightarrow> False
                  | Some h \<Rightarrow> (case hi_zonesShadows h of None \<Rightarrow> False | Some z \<Rightarrow> z > 30));
               score1 = (if shadowsPushed \<and> isoVal > 1600 then score0 - 10 else score0)
           in max 0 (min 100 score1)))"

record scores =
  sc_sharpness :: real
  sc_exposure :: real
  sc_focusAccuracy :: real
  sc_composition :: real
  sc_noise :: real
  sc_dynamicRange :: real
  sc_horizonLevel :: "real option"   \<comment> \<open>\<open>None\<close> is null\<close>

definition makeScores :: "analyses \<Rightarrow> scores" where
  "makeScores a =
     \<lparr> sc_sharpness = scoring_calculateSharpnessScore (an_sharpness a),
       sc_exposure = scoring_calculateExposureScore (an_histogram a),
       sc_focusAccuracy = calculateFocusAccuracyScore (an_sharpness a) (an_exif a),
       sc_composition =
         (case an_composition a of None \<Rightarrow> 60 | Some c \<Rightarrow> orDefault (co_score c) 60),
       sc_noise = calculateNoiseScore (an_exif a) (an_histogram a),
       sc_dynamicRange =
         (case an_histogram a of None \<Rightarrow> 60 | Some h \<Rightarrow> orDefault (hi_drPercentage h) 60),
       sc_horizonLevel =
         (case an_composition a of
            None \<Rightarrow> None
          | Some c \<Rightarrow>
              if co_horizonDetected c
              then Some (if co_horizonLevel c then 100
                         else max 50 (100 - \<bar>co_horizonTilt c\<bar> * 5))
              else None) \<rparr>"

datatype jsval = Undefined | Null | Val real

definition scores_get :: "scores \<Rightarrow> string \<Rightarrow> jsval" where
  \<comment> \<open>\<open>scores[key]\<close>, for a key that is not the name of a member inherited from
      Object.prototype: for such a key of a custom weight map the source reads a function,
      whose product with the weight is NaN, and that is outside the finite numbers of this
      model of the weighted average.\<close>
  "scores_get sc key =
     (if key = ''sharpness'' then Val (sc_sharpness sc)
      else if key = ''exposure'' then Val (sc_exposure sc)
      else if key = ''focusAccuracy'' then Val (sc_focusAccuracy sc)
      else if key = ''composition'' then Val (sc_composition sc)
      else if key = ''noise'' then Val (sc_noise sc)
      else if key = ''dynamicRange'' then Val (sc_dynamicRange sc)
      else if key = ''horizonLevel''
        then (case sc_horizonLevel sc of None \<Rightarrow> Null | Some v \<Rightarrow> Val v)
      else Undefined)"

definition scores_entries :: "scores \<Rightarrow> (string \<times> jsval) list" where
  \<comment> \<open>\<open>Object.entries(scores)\<close>, in the order the object literal lists the keys.\<close>
  "scores_entries sc =
     map (\<lambda>k. (k, scores_get sc k))
       [''sharpness'', ''exposure'', ''focusAccuracy'', ''composition'', ''noise'',
        ''dynamicRange'', ''horizonLevel'']"

section \<open>Scoring engine: overall score, rating, classification\<close>

definition actualMode :: "options \<Rightarrow> string" where
  "actualMode opts = (if op_mode opts = ''portrait'' then ''general'' else op_mode opts)"

definition actualWeights :: "options \<Rightarrow> (string \<times> real) list" where
  "actualWeights opts =
     (case op_customWeights opts of
        Some cw \<Rightarrow> cw
      | None \<Rightarrow> (case config_weights (actualMode opts) of
                   Some w \<Rightarrow> w
                 | None \<Rightarrow> weights_general))"

definition weightedStep :: "scores \<Rightarrow> string \<times> real \<Rightarrow> real \<times> real \<Rightarrow> real \<times> real" where
  \<comment> \<open>One round of the loop over \<open>Object.entries(actualWeights)\<close>.\<close>
  "weightedStep sc kw acc =
     (case kw of (key, weight) \<Rightarrow>
        (case acc of (weightedSum, weightTotal) \<Rightarrow>
           (case scores_get sc key of
              Val v \<Rightarrow> (weightedSum + v * weight, weightTotal + weight)
            | Null \<Rightarrow> (weightedSum, weightTotal)
            | Undefined \<Rightarrow> (weightedSum, weightTotal))))"

definition weightedLoop :: "scores \<Rightarrow> (string \<times> real) list \<Rightarrow> real \<times> real" where
  "weightedLoop sc ws = fold (weightedStep sc) ws (0, 0)"

definition overallOf :: "scores \<Rightarrow> (string \<times> real) list \<Rightarrow> real" where
  "overallOf sc ws =
     (case weightedLoop sc ws of (weightedSum, weightTotal) \<Rightarrow>
        if weightTotal > 0 then weightedSum / weightTotal else 0)"

definition overallScore :: "analyses \<Rightarrow> options \<Rightarrow> real" where
  \<comment> \<open>The local \<open>overallScore\<close> of calculateScores, before it is rounded.\<close>
  "overallScore a opts = overallOf (makeScores a) (actualWeights opts)"

definition calculateStarRating :: "real \<Rightarrow> nat" where
  "calculateStarRating score =
     (if score \<ge> thresholds_select then 5
      else if score \<ge> thresholds_good then 4
      else if score \<ge> thresholds_review then 3
      else if score \<ge> thresholds_maybe then 2
      else 1)"

definition checkAutoReject :: "analyses \<Rightarrow> string list" where
  \<comment> \<open>The list \<open>reasons\<close>; \<open>shouldReject\<close> is that it is not empty.\<close>
  "checkAutoReject a =
     (case an_sharpness a of
        None \<Rightarrow> []
      | Some s \<Rightarrow>
          (if sh_blurType s = ''motion'' \<and> sh_blurSeverity s \<ge> autoReject_motionBlurSeverity
           then [''severe-motion-blur''] else []) @
          (if sh_blurType s = ''defocus'' \<and> sh_blurSeverity s \<ge> autoReject_defocusSeverity
           then [''severely-out-of-focus''] else [])) @
     (case an_histogram a of
        None \<Rightarrow> []
      | Some h \<Rightarrow>
          (if hi_highlightsClipped h \<ge> autoReject_highlightClip
           then [''blown-highlights''] else []) @
          (if hi_shadowsClipped h \<ge> autoReject_shadowClip
           then [''crushed-shadows''] else []))"

definition thresholdCategory :: "real \<Rightarrow> string" where
  \<comment> \<open>The first part of classifyImage.\<close>
  "thresholdCategory score =
     (if score \<ge> thresholds_select then ''select''
      else if score \<ge> thresholds_good then ''good''
      else if score \<ge> thresholds_review then ''review''
      else if score \<ge> thresholds_maybe then ''maybe''
      else ''reject'')"

record classification =
  cl_category :: string
  cl_folder :: string
  cl_strongest :: "string option"
  cl_weakest :: "string option"
  cl_autoReject :: "string list option"   \<comment> \<open>\<open>None\<close> is null\<close>

definition sortedScores :: "scores \<Rightarrow> (string \<times> real) list" where
  \<comment> \<open>The entries that are not null, sorted by value, largest first; the sort is stable.\<close>
  "sortedScores sc =
     sort_key (\<lambda>kv. - snd kv)
       (concat (map (\<lambda>kv. case snd kv of Val v \<Rightarrow> [(fst kv, v)] | _ \<Rightarrow> [])
                  (scores_entries sc)))"

definition classifyImage :: "real \<Rightarrow> scores \<Rightarrow> analyses \<Rightarrow> classification" where
  "classifyImage score sc a =
     (let category = thresholdCategory score;
          sorted = sortedScores sc;
          reasons = checkAutoReject a;
          shouldReject = (length reasons > 0)
      in \<lparr> cl_category = (if shouldReject then ''reject'' else category),
           cl_folder = config_folders (if shouldReject then ''reject'' else category),
           cl_strongest = (case sorted of [] \<Rightarrow> None | kv # _ \<Rightarrow> Some (fst kv)),
           cl_weakest = (case sorted of [] \<Rightarrow> None | _ \<Rightarrow> Some (fst (last sorted))),
           cl_autoReject = (if shouldReject then Some reasons else None) \<rparr>)"

section \<open>Scoring engine: issues and keeper probability\<close>

text \<open>
  An issue keeps its type and its severity; the message and the suggestion are display
  texts that nothing else reads.
\<close>

record issue =
  is_type :: string
  is_severity :: string

definition generateIssuesList :: "scores \<Rightarrow> analyses \<Rightarrow> issue list" where
  "generateIssuesList sc a =
     (if sc_sharpness sc < 60
      then (let bt = (case an_sharpness a of None \<Rightarrow> '''' | Some s \<Rightarrow> sh_blurType s)
            in if bt = ''motion'' then [\<lparr>is_type = ''sharpness'', is_severity = ''high''\<rparr>]
               else if bt = ''defocus'' then [\<lparr>is_type = ''sharpness'', is_severity = ''high''\<rparr>]
               else [\<lparr>is_type = ''sharpness'', is_severity = ''medium''\<rparr>])
      else []) @
     (case an_histogram a of
        None \<Rightarrow> []
      | Some h \<Rightarrow>
          (if hi_assessment h = ''underexposed''
           then [\<lparr>is_type = ''exposure'', is_severity = ''medium''\<rparr>]
           else if hi_assessment h = ''overexposed''
           then [\<lparr>is_type = ''exposure'', is_severity = ''medium''\<rparr>]
           else []) @
          (if hi_highlightsSeverity h = Some ''moderate'' \<or> hi_highlightsSeverity h = Some ''severe''
           then [\<lparr>is_type = ''clipping'',
                   is_severity = (if hi_highlightsSeverity h = Some ''severe''
                                  then ''high'' else ''medium'')\<rparr>]
           else [])) @
     (case an_composition a of
        None \<Rightarrow> []
      | Some c \<Rightarrow>
          (if co_horizonDetected c \<and> \<not> co_horizonLevel c \<and> \<bar>co_horizonTilt c\<bar> > 2
           then [\<lparr>is_type = ''composition'',
                   is_severity = (if \<bar>co_horizonTilt c\<bar> > 5 then ''medium'' else ''low'')\<rparr>]
           else [])) @
     (if sc_noise sc < 50 then [\<lparr>is_type = ''noise'', is_severity = ''low''\<rparr>] else [])"

definition calculateKeeperProbability :: "jsnum \<Rightarrow> issue list \<Rightarrow> jsnum" where
  \<comment> \<open>In double arithmetic: every quotient, product and difference is rounded.\<close>
  "calculateKeeperProbability score issues =
     (let probability0 = flj (score / Fin 100);
          criticalIssues = filter (\<lambda>i. is_severity i = ''high'') issues;
          probability1 =
            flj (probability0 - flj (Fin (real (length criticalIssues)) * Fin (fl 0.15)));
          mediumIssues = filter (\<lambda>i. is_severity i = ''medium'') issues;
          probability2 =
            flj (probability1 - flj (Fin (real (length mediumIssues)) * Fin (fl 0.05)))
      in Math_max (Fin 0)
           (Math_min (Fin 1) (flj (jsround (flj (probability2 * Fin 100)) / Fin 100))))"

record scoreResult =
  res_scores :: scores
  res_overall :: real
  res_rating :: nat
  res_classification :: classification
  res_issues :: "issue list"
  res_keeperProbability :: jsnum
  res_mode :: string
  res_weights :: "(string \<times> real) list"

definition calculateScores :: "analyses \<Rightarrow> options \<Rightarrow> scoreResult" where
  "calculateScores a opts =
     (let sc = makeScores a;
          overallScore = overallOf sc (actualWeights opts);
          issues = generateIssuesList sc a
      in \<lparr> res_scores = sc,
           res_overall = Math_round overallScore,
           res_rating = calculateStarRating overallScore,
           res_classification = classifyImage overallScore sc a,
           res_issues = issues,
           res_keeperProbability = calculateKeeperProbability (Fin overallScore) issues,
           res_mode = actualMode opts,
           res_weights = actualWeights opts \<rparr>)"

section \<open>Scoring engine: the specification's words\<close>

text \<open>
  The definitions of this section follow the specification, not the code; the theorems
  compare them with the code's functions above.
\<close>

definition present :: "scores \<Rightarrow> string \<Rightarrow> bool" where
  \<comment> \<open>The sub-score of that name has a value: it is neither null nor undefined.\<close>
  "present sc key = (scores_get sc key \<noteq> Null \<and> scores_get sc key \<noteq> Undefined)"

definition valueOf :: "jsval \<Rightarrow> real" where
  "valueOf v = (case v of Val x \<Rightarrow> x | _ \<Rightarrow> 0)"

definition spec_weightedSum :: "scores \<Rightarrow> (string \<times> real) list \<Rightarrow> real" where
  \<comment> \<open>The numerator: over the entries of the weight map whose sub-score is present.\<close>
  "spec_weightedSum sc ws =
     sum_list (map (\<lambda>kw. valueOf (scores_get sc (fst kw)) * snd kw)
                 (filter (\<lambda>kw. present sc (fst kw)) ws))"

definition spec_weightTotal :: "scores \<Rightarrow> (string \<times> real) list \<Rightarrow> real" where
  \<comment> \<open>The denominator: over the same entries.\<close>
  "spec_weightTotal sc ws = sum_list (map snd (filter (\<lambda>kw. present sc (fst kw)) ws))"

definition round2 :: "real \<Rightarrow> real" where
  \<comment> \<open>Rounding to two decimal places.\<close>
  "round2 x = Math_round (x * 100) / 100"

definition spec_keeperProbability :: "real \<Rightarrow> issue list \<Rightarrow> real" where
  \<comment> \<open>overall/100, less 0.15 per high and 0.05 per medium issue, clamped, then rounded.\<close>
  "spec_keeperProbability overallVal issues =
     round2 (max 0 (min 1
       (overallVal / 100
        - 0.15 * real (length (filter (\<lambda>i. is_severity i = ''high'') issues))
        - 0.05 * real (length (filter (\<lambda>i. is_severity i = ''medium'') issues)))))"

definition round2_double :: "real \<Rightarrow> real" where
  \<comment> \<open>Rounding to two decimal places, in double arithmetic.\<close>
  "round2_double x = fl (Math_round (fl (x * 100)) / 100)"

definition spec_probability_double :: "real \<Rightarrow> issue list \<Rightarrow> real" where
  \<comment> \<open>overall/100, less 0.15 per high and 0.05 per medium issue, in double arithmetic.\<close>
  "spec_probability_double overallVal issues =
     fl (fl (fl (overallVal / 100)
             - fl (real (length (filter (\<lambda>i. is_severity i = ''high'') issues)) * fl 0.15))
         - fl (real (length (filter (\<lambda>i. is_severity i = ''medium'') issues)) * fl 0.05))"

definition spec_keeperProbability_double :: "real \<Rightarrow> issue list \<Rightarrow> real" where
  \<comment> \<open>The same formula in double arithmetic: clamped, then rounded.\<close>
  "spec_keeperProbability_double overallVal issues =
     round2_double (max 0 (min 1 (spec_probability_double overallVal issues)))"

definition autoRejectCondition :: "analyses \<Rightarrow> bool" where
  \<comment> \<open>One of the four auto-reject conditions holds.\<close>
  "autoRejectCondition a =
     ((case an_sharpness a of
         None \<Rightarrow> False
       | Some s \<Rightarrow> (sh_blurType s = ''motion'' \<and> sh_blurSeverity s \<ge> 0.85)
                   \<or> (sh_blurType s = ''defocus'' \<and> sh_blurSeverity s \<ge> 0.85)) \<or>
      (case an_histogram a of
         None \<Rightarrow> False
       | Some h \<Rightarrow> hi_highlightsClipped h \<ge> 25 \<or> hi_shadowsClipped h \<ge> 25))"

subsection \<open>Example inputs\<close>

definition optsGeneral :: options where
  "optsGeneral = \<lparr> op_mode = ''general'', op_customWeights = None \<rparr>"

definition optsLandscape :: options where
  "optsLandscape = \<lparr> op_mode = ''landscape'', op_customWeights = None \<rparr>"

definition exA :: analyses where
  "exA =
     \<lparr> an_exif = Some \<lparr>exif_iso = Some 1600, exif_continuous = False\<rparr>,
       an_histogram = Some \<lparr>hi_score = 72, hi_drPercentage = 70, hi_zonesShadows = Some 10,
          hi_assessment = ''well-exposed'', hi_highlightsClipped = 0,
          hi_highlightsSeverity = Some ''none'', hi_shadowsClipped = 0\<rparr>,
       an_sharpness = Some \<lparr>sh_score = 72,
          sh_sharpestRegions = [''top-left'', ''top'', ''left'', ''top-right'', ''right''],
          sh_blurType = ''none'', sh_blurSeverity = 0\<rparr>,
       an_composition = Some \<lparr>co_score = 67, co_horizonDetected = False,
          co_horizonLevel = False, co_horizonTilt = 0\<rparr> \<rparr>"

definition exB :: analyses where
  "exB = exA \<lparr> an_composition := Some \<lparr>co_score = 70, co_horizonDetected = False,
          co_horizonLevel = False, co_horizonTilt = 0\<rparr> \<rparr>"

definition exMotion :: analyses where
  \<comment> \<open>Motion blur of severity 0.9 with otherwise perfect scores.\<close>
  "exMotion =
     \<lparr> an_exif = Some \<lparr>exif_iso = Some 100, exif_continuous = False\<rparr>,
       an_histogram = Some \<lparr>hi_score = 100, hi_drPercentage = 100, hi_zonesShadows = Some 10,
          hi_assessment = ''well-exposed'', hi_highlightsClipped = 0,
          hi_highlightsSeverity = Some ''none'', hi_shadowsClipped = 0\<rparr>,
       an_sharpness = Some \<lparr>sh_score = 100,
          sh_sharpestRegions = [''center'', ''top'', ''left'', ''bottom'', ''right''],
          sh_blurType = ''motion'', sh_blurSeverity = 0.9\<rparr>,
       an_composition = Some \<lparr>co_score = 100, co_horizonDetected = False,
          co_horizonLevel = False, co_horizonTilt = 0\<rparr> \<rparr>"

definition exBlown :: analyses where
  \<comment> \<open>30 percent of the highlights clipped, good scores otherwise.\<close>
  "exBlown =
     \<lparr> an_exif = Some \<lparr>exif_iso = Some 100, exif_continuous = False\<rparr>,
       an_histogram = Some \<lparr>hi_score = 80, hi_drPercentage = 90, hi_zonesShadows = Some 5,
          hi_assessment = ''well-exposed'', hi_highlightsClipped = 30,
          hi_highlightsSeverity = Some ''critical'', hi_shadowsClipped = 0\<rparr>,
       an_sharpness = Some \<lparr>sh_score = 90,
          sh_sharpestRegions = [''center'', ''top'', ''left'', ''bottom'', ''right''],
          sh_blurType = ''none'', sh_blurSeverity = 0\<rparr>,
       an_composition = Some \<lparr>co_score = 80, co_horizonDetected = False,
          co_horizonLevel = False, co_horizonTilt = 0\<rparr> \<rparr>"

definition exHorizon :: analyses where
  \<comment> \<open>As \<open>exA\<close>, with a level horizon detected.\<close>
  "exHorizon = exA \<lparr> an_composition := Some \<lparr>co_score = 67, co_horizonDetected = True,
          co_horizonLevel = True, co_horizonTilt = 0.3\<rparr> \<rparr>"

definition exMedium :: "issue list" where
  \<comment> \<open>One issue of severity 'medium'.\<close>
  "exMedium = [\<lparr>is_type = ''exposure'', is_severity = ''medium''\<rparr>]"


section \<open>Sharpness analyser (sharpnessAnalyzer.js)\<close>

definition laplacianAt :: "nat list \<Rightarrow> nat \<Rightarrow> nat \<times> nat \<Rightarrow> int" where
  "laplacianAt data width p =
     (case p of (y, x) \<Rightarrow>
        (let idx = y * width + x
         in px data (idx - width) + px data (idx - 1) + (- 4) * px data idx
            + px data (idx + 1) + px data (idx + width)))"

definition laplacianStep ::
  "nat list \<Rightarrow> nat \<Rightarrow> nat \<times> nat \<Rightarrow> int \<times> int \<times> nat \<Rightarrow> int \<times> int \<times> nat" where
  "laplacianStep data width p acc =
     (case acc of (sumA, sumSq, count) \<Rightarrow>
        (let absLaplacian = \<bar>laplacianAt data width p\<bar>
         in (sumA + absLaplacian, sumSq + absLaplacian * absLaplacian, count + 1)))"

definition calculateLaplacianVariance :: "nat list \<Rightarrow> nat \<Rightarrow> nat \<Rightarrow> jsnum" where
  "calculateLaplacianVariance data width height =
     (case fold (laplacianStep data width) (interior width height) (0, 0, 0) of
        (sumA, sumSq, count) \<Rightarrow>
          (let mean = Fin (real_of_int sumA) / Fin (real count);
               variance = (Fin (real_of_int sumSq) / Fin (real count)) - (mean * mean)
           in variance))"

definition gradientAt :: "nat list \<Rightarrow> nat \<Rightarrow> string \<Rightarrow> nat \<times> nat \<Rightarrow> int" where
  "gradientAt data width direction p =
     (case p of (y, x) \<Rightarrow>
        (let idx = y * width + x
         in if direction = ''horizontal''
            then \<bar>px data (idx + 1) - px data (idx - 1)\<bar>
            else \<bar>px data (idx + width) - px data (idx - width)\<bar>))"

definition calculateDirectionalGradient ::
  "nat list \<Rightarrow> nat \<Rightarrow> nat \<Rightarrow> string \<Rightarrow> jsnum" where
  "calculateDirectionalGradient data width height direction =
     (case fold (\<lambda>p (sumA, count). (sumA + gradientAt data width direction p, count + 1))
             (interior width height) (0, 0 :: nat) of
        (sumA, count) \<Rightarrow> Fin (real_of_int sumA) / Fin (real count))"

text \<open>
  Math.random is an input of the model: \<open>rnd k\<close> is the value of the k-th call, a number
  in [0, 1). Sample i takes call 2i for x and call 2i + 1 for y.
\<close>

definition sampleCount :: nat where
  "sampleCount = 20"

definition sampleAngle :: "nat list \<Rightarrow> nat \<Rightarrow> nat \<Rightarrow> (nat \<Rightarrow> real) \<Rightarrow> nat \<Rightarrow> jsnum" where
  "sampleAngle data width height rnd i =
     (let x = \<lfloor>rnd (2 * i) * (real width - 2)\<rfloor> + 1;
          y = \<lfloor>rnd (2 * i + 1) * (real height - 2)\<rfloor> + 1;
          idx = y * int width + x;
          gx = pxAt data (idx + 1) - pxAt data (idx - 1);
          gy = pxAt data (idx + int width) - pxAt data (idx - int width)
      in case (gy, gx) of
           (Fin b, Fin a) \<Rightarrow> Fin (atan2 b a)
         | _ \<Rightarrow> NaN)"

definition analyzeGradientConsistency ::
  "nat list \<Rightarrow> nat \<Rightarrow> nat \<Rightarrow> (nat \<Rightarrow> real) \<Rightarrow> jsnum" where
  "analyzeGradientConsistency data width height rnd =
     (let samples = map (sampleAngle data width height rnd) [0..<sampleCount];
          sumSin = fold (\<lambda>angle s. s + Math_sin angle) samples (Fin 0);
          sumCos = fold (\<lambda>angle s. s + Math_cos angle) samples (Fin 0);
          R = Math_sqrt (sumSin * sumSin + sumCos * sumCos) / Fin (real sampleCount)
      in R)"

record blurMetrics =
  bm_horizontalGradient :: jsnum
  bm_verticalGradient :: jsnum
  bm_gradientRatio :: jsnum
  bm_consistency :: jsnum
  bm_avgGradient :: jsnum

record blurAnalysis =
  bl_type :: string
  bl_severity :: jsnum
  bl_direction :: "string option"    \<comment> \<open>\<open>None\<close> is null\<close>
  bl_metrics :: blurMetrics

definition blurDecision ::
  "jsnum \<Rightarrow> jsnum \<Rightarrow> jsnum \<Rightarrow> jsnum \<Rightarrow> string \<times> jsnum \<times> string option" where
  \<comment> \<open>The if-chain of detectBlurType: type, severity and direction.\<close>
  "blurDecision overallSharpness gradientRatio avgGradient gradientConsistency =
     (if overallSharpness > Fin 100 \<or> avgGradient > Fin 20
      then (''none'', Fin 0, None)
      else if \<bar>gradientRatio - Fin 1\<bar> > Fin 0.5 \<and> overallSharpness < Fin 50
              \<and> avgGradient < Fin 15
      then (''motion'',
            Math_max (Fin 0) (Math_min (Fin 1) (Fin 1 - (overallSharpness / Fin 50))),
            Some (if gradientRatio > Fin 1 then ''horizontal'' else ''vertical''))
      else if overallSharpness < Fin 40 \<and> gradientConsistency > Fin 0.9
              \<and> avgGradient < Fin 12
      then (''defocus'',
            Math_max (Fin 0) (Math_min (Fin 1) (Fin 1 - (overallSharpness / Fin 40))),
            None)
      else if overallSharpness < Fin 80
      then (''soft'', Fin 0.2, None)
      else (''none'', Fin 0, None))"

definition detectBlurType ::
  "nat list \<Rightarrow> nat \<Rightarrow> nat \<Rightarrow> jsnum \<Rightarrow> (nat \<Rightarrow> real) \<Rightarrow> blurAnalysis" where
  "detectBlurType data width height overallSharpness rnd =
     (let horizontalGradient = calculateDirectionalGradient data width height ''horizontal'';
          verticalGradient = calculateDirectionalGradient data width height ''vertical'';
          gradientRatio = horizontalGradient / (jsor verticalGradient (Fin 1));
          gradientConsistency = analyzeGradientConsistency data width height rnd;
          avgGradient = (horizontalGradient + verticalGradient) / Fin 2
      in case blurDecision overallSharpness gradientRatio avgGradient gradientConsistency of
           (blurType, severity, direction) \<Rightarrow>
             \<lparr> bl_type = blurType,
               bl_severity = Math_min (Fin 1) (Math_max (Fin 0) severity),
               bl_direction = direction,
               bl_metrics =
                 \<lparr> bm_horizontalGradient = jsround horizontalGradient,
                   bm_verticalGradient = jsround verticalGradient,
                   bm_gradientRatio = jsround (gradientRatio * Fin 100) / Fin 100,
                   bm_consistency = jsround (gradientConsistency * Fin 100) / Fin 100,
                   bm_avgGradient = jsround avgGradient \<rparr> \<rparr>)"

definition sobelX :: "nat list \<Rightarrow> nat \<Rightarrow> nat \<times> nat \<Rightarrow> int" where
  "sobelX data width p =
     (case p of (y, x) \<Rightarrow>
        (let idx = y * width + x
         in - px data (idx - width - 1) + px data (idx - width + 1)
            + (- 2) * px data (idx - 1) + 2 * px data (idx + 1)
            + - px data (idx + width - 1) + px data (idx + width + 1)))"

definition sobelY :: "nat list \<Rightarrow> nat \<Rightarrow> nat \<times> nat \<Rightarrow> int" where
  "sobelY data width p =
     (case p of (y, x) \<Rightarrow>
        (let idx = y * width + x
         in - px data (idx - width - 1) - 2 * px data (idx - width) - px data (idx - width + 1)
            + px data (idx + width - 1) + 2 * px data (idx + width)
            + px data (idx + width + 1)))"

definition edgeStep ::
  "nat list \<Rightarrow> nat \<Rightarrow> nat \<times> nat \<Rightarrow> real \<times> nat \<times> nat \<times> nat \<Rightarrow> real \<times> nat \<times> nat \<times> nat" where
  "edgeStep data width p acc =
     (case acc of (edgeSum, strongEdges, weakEdges, count) \<Rightarrow>
        (let gx = sobelX data width p;
             gy = sobelY data width p;
             magnitude = sqrt (real_of_int (gx * gx + gy * gy))
         in (edgeSum + magnitude,
             (if magnitude > 100 then strongEdges + 1 else strongEdges),
             (if magnitude > 100 then weakEdges
              else if magnitude > 30 then weakEdges + 1 else weakEdges),
             count + 1)))"

record edgeAnalysis =
  ed_averageStrength :: jsnum
  ed_strongEdgeRatio :: jsnum
  ed_assessment :: string

definition analyzeEdges :: "nat list \<Rightarrow> nat \<Rightarrow> nat \<Rightarrow> edgeAnalysis" where
  "analyzeEdges data width height =
     (case fold (edgeStep data width) (interior width height) (0, 0, 0, 0) of
        (edgeSum, strongEdges, weakEdges, count) \<Rightarrow>
          (let avgEdgeStrength = Fin edgeSum / Fin (real count);
               strongEdgeRatio = Fin (real strongEdges) / Fin (real count)
           in \<lparr> ed_averageStrength = jsround avgEdgeStrength,
                ed_strongEdgeRatio = jsround (strongEdgeRatio * Fin 10000) / Fin 100,
                ed_assessment = (if avgEdgeStrength > Fin 50 then ''strong''
                                 else if avgEdgeStrength > Fin 25 then ''moderate''
                                 else ''weak'') \<rparr>))"

definition edgeScore :: "jsnum \<Rightarrow> jsnum" where
  \<comment> \<open>The edge-based part of calculateSharpnessScore.\<close>
  "edgeScore edgeStrength =
     (if edgeStrength > Fin 80
      then Fin 90 + Math_min (Fin 10) ((edgeStrength - Fin 80) / Fin 4)
      else if edgeStrength > Fin 60
      then Fin 78 + ((edgeStrength - Fin 60) / Fin 20) * Fin 12
      else if edgeStrength > Fin 40
      then Fin 65 + ((edgeStrength - Fin 40) / Fin 20) * Fin 13
      else if edgeStrength > Fin 25
      then Fin 52 + ((edgeStrength - Fin 25) / Fin 15) * Fin 13
      else if edgeStrength > Fin 15
      then Fin 40 + ((edgeStrength - Fin 15) / Fin 10) * Fin 12
      else Fin 30 + (edgeStrength / Fin 15) * Fin 10)"

definition calculateSharpnessScore ::
  "jsnum \<Rightarrow> blurAnalysis \<Rightarrow> edgeAnalysis \<Rightarrow> string \<Rightarrow> jsnum" where
  \<comment> \<open>The last argument is \<open>focusPlane.position\<close>.\<close>
  "calculateSharpnessScore overallSharpness blur edges focusPosition =
     (let edgeStrength = jsor (ed_averageStrength edges) (Fin 0);
          strongEdgeRatio = jsor (ed_strongEdgeRatio edges) (Fin 0);
          score0 = edgeScore edgeStrength;
          score1 = (if strongEdgeRatio > Fin 5 then score0 + Fin 5
                    else if strongEdgeRatio > Fin 2 then score0 + Fin 3
                    else score0);
          score2 = (if overallSharpness > Fin 500 then score1 + Fin 3
                    else if overallSharpness > Fin 300 then score1 + Fin 2
                    else score1);
          score3 = (if bl_type blur = ''motion'' \<and> bl_severity blur > Fin 0.6
                    then score2 - (bl_severity blur - Fin 0.6) * Fin 25
                    else if bl_type blur = ''defocus'' \<and> bl_severity blur > Fin 0.6
                    then score2 - (bl_severity blur - Fin 0.6) * Fin 20
                    else score2);
          score4 = (if focusPosition = ''center'' then score3 + Fin 2 else score3)
      in Math_max (Fin 0) (Math_min (Fin 100) (jsround score4)))"

section \<open>Composition analyser (compositionAnalyzer.js)\<close>

subsection \<open>Interest points and the rule of thirds\<close>

record interestPoint =
  ip_x :: nat
  ip_y :: nat
  ip_strength :: int

definition blockSize :: nat where
  "blockSize = 30"

definition blockStarts :: "nat \<Rightarrow> nat list" where
  \<comment> \<open>\<open>for (b = 0; b < n; b += blockSize)\<close>\<close>
  "blockStarts n = map (\<lambda>k. k * blockSize) [0..<(n + blockSize - 1) div blockSize]"

definition contrastAt :: "nat list \<Rightarrow> nat \<Rightarrow> nat \<times> nat \<Rightarrow> int" where
  "contrastAt data width p =
     (case p of (y, x) \<Rightarrow>
        (let idx = y * width + x
         in \<bar>px data idx - px data (idx + 1)\<bar> + \<bar>px data idx - px data (idx + width)\<bar>))"

definition blockStep ::
  "nat list \<Rightarrow> nat \<Rightarrow> nat \<times> nat \<Rightarrow> int \<times> nat \<times> nat \<Rightarrow> int \<times> nat \<times> nat" where
  "blockStep data width p acc =
     (case acc of (maxContrast, maxX, maxY) \<Rightarrow>
        (let contrast = contrastAt data width p
         in if contrast > maxContrast then (contrast, snd p, fst p)
            else (maxContrast, maxX, maxY)))"

definition blockScan :: "nat list \<Rightarrow> nat \<Rightarrow> nat \<Rightarrow> nat \<times> nat \<Rightarrow> int \<times> nat \<times> nat" where
  \<comment> \<open>The two inner loops of findInterestPoints for the block that starts at (by, bx).\<close>
  "blockScan data width height b =
     (case b of (by, bx) \<Rightarrow>
        fold (blockStep data width)
          (List.product [by..<min (by + blockSize) (height - 1)]
                        [bx..<min (bx + blockSize) (width - 1)])
          (0, bx, by))"

definition findInterestPoints :: "nat list \<Rightarrow> nat \<Rightarrow> nat \<Rightarrow> int \<Rightarrow> interestPoint list" where
  "findInterestPoints data width height threshold =
     (let points =
            concat (map (\<lambda>b. case blockScan data width height b of
                               (maxContrast, maxX, maxY) \<Rightarrow>
                                 if maxContrast > threshold
                                 then [\<lparr>ip_x = maxX, ip_y = maxY, ip_strength = maxContrast\<rparr>]
                                 else [])
                      (List.product (blockStarts height) (blockStarts width)))
      in take 10 (sort_key (\<lambda>p. - ip_strength p) points))"

definition powerPoints :: "nat \<Rightarrow> nat \<Rightarrow> (real \<times> real \<times> string) list" where
  "powerPoints width height =
     [(real width / 3, real height / 3, ''top-left''),
      ((real width * 2) / 3, real height / 3, ''top-right''),
      (real width / 3, (real height * 2) / 3, ''bottom-left''),
      ((real width * 2) / 3, (real height * 2) / 3, ''bottom-right'')]"

definition nearestStep ::
  "interestPoint \<times> (real \<times> real \<times> string) \<Rightarrow> jsnum \<times> string option
     \<Rightarrow> jsnum \<times> string option" where
  "nearestStep ip acc =
     (case ip of (interest, (powerX, powerY, name)) \<Rightarrow>
        (case acc of (minDistance, nearestPowerPoint) \<Rightarrow>
           (let dist = sqrt ((real (ip_x interest) - powerX)\<^sup>2
                             + (real (ip_y interest) - powerY)\<^sup>2)
            in if Fin dist < minDistance then (Fin dist, Some name)
               else (minDistance, nearestPowerPoint))))"

definition analyzeThirdsLines :: "interestPoint list \<Rightarrow> nat \<Rightarrow> nat \<Rightarrow> bool \<times> bool" where
  \<comment> \<open>The pair (vertical, horizontal).\<close>
  "analyzeThirdsLines interestPoints width height =
     (let verticalLines = [real width / 3, (real width * 2) / 3];
          horizontalLines = [real height / 3, (real height * 2) / 3];
          tolerance = real (min width height) * 0.05;
          verticalAlignment =
            fold (\<lambda>pl a. if \<bar>real (ip_x (fst pl)) - snd pl\<bar> < tolerance
                          then a + ip_strength (fst pl) else a)
              (List.product interestPoints verticalLines) 0;
          horizontalAlignment =
            fold (\<lambda>pl a. if \<bar>real (ip_y (fst pl)) - snd pl\<bar> < tolerance
                          then a + ip_strength (fst pl) else a)
              (List.product interestPoints horizontalLines) 0
      in (verticalAlignment > 100, horizontalAlignment > 100))"

record ruleOfThirds =
  rt_alignment :: jsnum
  rt_nearestPowerPoint :: "string option"
  rt_interestPointCount :: nat
  rt_thirdsLines :: "bool \<times> bool"
  rt_assessment :: string

definition analyzeRuleOfThirds :: "nat list \<Rightarrow> nat \<Rightarrow> nat \<Rightarrow> ruleOfThirds" where
  "analyzeRuleOfThirds data width height =
     (let interestPoints = findInterestPoints data width height 50
      in case fold nearestStep (List.product interestPoints (powerPoints width height))
                (PosInf, None) of
           (minDistance, nearestPowerPoint) \<Rightarrow>
             (let maxDist = sqrt ((real width / 6)\<^sup>2 + (real height / 6)\<^sup>2);
                  alignment = Math_max (Fin 0) (Fin 1 - minDistance / Fin maxDist)
              in \<lparr> rt_alignment = jsround (alignment * Fin 100),
                   rt_nearestPowerPoint = nearestPowerPoint,
                   rt_interestPointCount = length interestPoints,
                   rt_thirdsLines = analyzeThirdsLines interestPoints width height,
                   rt_assessment = (if alignment > Fin 0.7 then ''strong''
                                    else if alignment > Fin 0.4 then ''moderate''
                                    else ''weak'') \<rparr>))"

subsection \<open>Visual balance\<close>

definition calculateQuadrantWeight ::
  "nat list \<Rightarrow> nat \<Rightarrow> nat \<Rightarrow> nat \<Rightarrow> nat \<Rightarrow> nat \<Rightarrow> real" where
  "calculateQuadrantWeight data stride x1 y1 x2 y2 =
     (case fold (\<lambda>p (weight, count). (weight + px data (fst p * stride + snd p), count + 1))
             (List.product [y1..<y2] [x1..<x2]) (0, 0 :: nat) of
        (weight, count) \<Rightarrow> if count > 0 then real_of_int weight / real count else 0)"

record balance =
  ba_topLeft :: real
  ba_topRight :: real
  ba_bottomLeft :: real
  ba_bottomRight :: real
  ba_horizontal :: jsnum
  ba_vertical :: jsnum
  ba_overall :: jsnum
  ba_type :: string

definition analyzeVisualBalance :: "nat list \<Rightarrow> nat \<Rightarrow> nat \<Rightarrow> balance" where
  "analyzeVisualBalance data width height =
     (let midX = width div 2;
          midY = height div 2;
          topLeft = calculateQuadrantWeight data width 0 0 midX midY;
          topRight = calculateQuadrantWeight data width midX 0 width midY;
          bottomLeft = calculateQuadrantWeight data width 0 midY midX height;
          bottomRight = calculateQuadrantWeight data width midX midY width height;
          leftWeight = topLeft + bottomLeft;
          rightWeight = topRight + bottomRight;
          topWeight = topLeft + topRight;
          bottomWeight = bottomLeft + bottomRight;
          horizontalBalance =
            Fin 1 - Fin \<bar>leftWeight - rightWeight\<bar> / Fin (leftWeight + rightWeight);
          verticalBalance =
            Fin 1 - Fin \<bar>topWeight - bottomWeight\<bar> / Fin (topWeight + bottomWeight);
          balanceType =
            (if horizontalBalance > Fin 0.8 \<and> verticalBalance > Fin 0.8 then ''symmetrical''
             else if horizontalBalance > Fin 0.6 \<and> verticalBalance > Fin 0.6 then ''balanced''
             else if horizontalBalance < Fin 0.4 \<or> verticalBalance < Fin 0.4 then ''dynamic''
             else ''asymmetrical'')
      in \<lparr> ba_topLeft = topLeft, ba_topRight = topRight,
           ba_bottomLeft = bottomLeft, ba_bottomRight = bottomRight,
           ba_horizontal = jsround (horizontalBalance * Fin 100),
           ba_vertical = jsround (verticalBalance * Fin 100),
           ba_overall = jsround (((horizontalBalance + verticalBalance) / Fin 2) * Fin 100),
           ba_type = balanceType \<rparr>)"

subsection \<open>Weight distribution\<close>

record weightDistribution =
  wd_centerOfMassX :: jsnum
  wd_centerOfMassY :: jsnum
  wd_offsetX :: jsnum
  wd_offsetY :: jsnum
  wd_centered :: bool

definition massStep :: "nat list \<Rightarrow> nat \<Rightarrow> nat \<times> nat \<Rightarrow> int \<times> int \<times> int \<Rightarrow> int \<times> int \<times> int" where
  "massStep data width p acc =
     (case acc of (sumX, sumY, totalWeight) \<Rightarrow>
        (let weight = px data (fst p * width + snd p)
         in (sumX + int (snd p) * weight, sumY + int (fst p) * weight, totalWeight + weight)))"

definition analyzeWeightDistribution :: "nat list \<Rightarrow> nat \<Rightarrow> nat \<Rightarrow> weightDistribution" where
  "analyzeWeightDistribution data width height =
     (case fold (massStep data width) (List.product [0..<height] [0..<width]) (0, 0, 0) of
        (sumX, sumY, totalWeight) \<Rightarrow>
          (let centerX = Fin (real_of_int sumX) / Fin (real_of_int totalWeight) / Fin (real width);
               centerY = Fin (real_of_int sumY) / Fin (real_of_int totalWeight) / Fin (real height);
               offsetX = \<bar>centerX - Fin 0.5\<bar>;
               offsetY = \<bar>centerY - Fin 0.5\<bar>
           in \<lparr> wd_centerOfMassX = jsround (centerX * Fin 100),
                wd_centerOfMassY = jsround (centerY * Fin 100),
                wd_offsetX = jsround (offsetX * Fin 100),
                wd_offsetY = jsround (offsetY * Fin 100),
                wd_centered = (offsetX < Fin 0.1 \<and> offsetY < Fin 0.1) \<rparr>))"

subsection \<open>Symmetry\<close>

record symmetry =
  sy_horizontal :: jsnum
  sy_vertical :: jsnum
  sy_overall :: jsnum
  sy_type :: string

definition horizontalSymStep :: "nat list \<Rightarrow> nat \<Rightarrow> nat \<times> nat \<Rightarrow> int \<times> nat \<Rightarrow> int \<times> nat" where
  "horizontalSymStep data width p acc =
     (case acc of (horizontalDiff, count) \<Rightarrow>
        (let left = px data (fst p * width + snd p);
             right = px data (fst p * width + (width - 1 - snd p))
         in (horizontalDiff + \<bar>left - right\<bar>, count + 1)))"

definition verticalSymStep ::
  "nat list \<Rightarrow> nat \<Rightarrow> nat \<Rightarrow> nat \<times> nat \<Rightarrow> int \<times> nat \<Rightarrow> int \<times> nat" where
  "verticalSymStep data width height p acc =
     (case acc of (verticalDiff, vCount) \<Rightarrow>
        (let top = px data (fst p * width + snd p);
             bottom = px data ((height - 1 - fst p) * width + snd p)
         in (verticalDiff + \<bar>top - bottom\<bar>, vCount + 1)))"

definition analyzeSymmetry :: "nat list \<Rightarrow> nat \<Rightarrow> nat \<Rightarrow> symmetry" where
  \<comment> \<open>\<open>x < width / 2\<close> for an integer x is \<open>x < (width + 1) div 2\<close>.\<close>
  "analyzeSymmetry data width height =
     (case fold (horizontalSymStep data width)
             (List.product [0..<height] [0..<(width + 1) div 2]) (0, 0) of
        (horizontalDiff, count) \<Rightarrow>
          (case fold (verticalSymStep data width height)
                  (List.product [0..<(height + 1) div 2] [0..<width]) (0, 0) of
             (verticalDiff, vCount) \<Rightarrow>
               (let horizontalSymmetry =
                      Fin 1 - Fin (real_of_int horizontalDiff) / Fin (real count * 255);
                    verticalSymmetry =
                      Fin 1 - Fin (real_of_int verticalDiff) / Fin (real vCount * 255)
                in \<lparr> sy_horizontal = jsround (horizontalSymmetry * Fin 100),
                     sy_vertical = jsround (verticalSymmetry * Fin 100),
                     sy_overall =
                       jsround (((horizontalSymmetry + verticalSymmetry) / Fin 2) * Fin 100),
                     sy_type =
                       (if horizontalSymmetry > Fin 0.8 then ''horizontally-symmetric''
                        else if verticalSymmetry > Fin 0.8 then ''vertically-symmetric''
                        else if horizontalSymmetry > Fin 0.6 \<and> verticalSymmetry > Fin 0.6
                        then ''balanced''
                        else ''asymmetric'') \<rparr>)))"

section \<open>Histogram analyser (histogramAnalyzer.js)\<close>

text \<open>
  A colour buffer lists the channels of a pixel one after the other. The histograms count
  in lists of 256 buckets; normalised, a bucket is the percentage of the pixels in it. The
  buffer has at least one pixel, so the percentages are finite numbers. The arithmetic is
  double arithmetic, in the order in which the source evaluates it. The field \<open>shape\<close> of
  the exposure analysis is left out: it takes a square from Math.pow, whose rounding the
  language leaves open, and nothing else reads it.
\<close>

record histogram =
  hg_red :: "real list"
  hg_green :: "real list"
  hg_blue :: "real list"
  hg_luminance :: "real list"
  hg_totalPixels :: nat














section \<open>Analysers: auxiliary notions and example inputs\<close>

definition samePositions :: "nat \<Rightarrow> nat \<Rightarrow> (nat \<Rightarrow> real) \<Rightarrow> (nat \<Rightarrow> real) \<Rightarrow> bool" where
  \<comment> \<open>Two runs draw the same twenty sample positions.\<close>
  "samePositions width height r1 r2 =
     list_all (\<lambda>i. \<lfloor>r1 (2 * i) * (real width - 2)\<rfloor> = \<lfloor>r2 (2 * i) * (real width - 2)\<rfloor>
                 \<and> \<lfloor>r1 (2 * i + 1) * (real height - 2)\<rfloor>
                     = \<lfloor>r2 (2 * i + 1) * (real height - 2)\<rfloor>)
       [0..<sampleCount]"

definition blurVerdict :: "blurAnalysis \<Rightarrow> string \<times> jsnum \<times> string option" where
  \<comment> \<open>Type, severity and direction of a blur analysis.\<close>
  "blurVerdict b = (bl_type b, bl_severity b, bl_direction b)"

definition gradientRatioOf :: "nat list \<Rightarrow> nat \<Rightarrow> nat \<Rightarrow> jsnum" where
  \<comment> \<open>The local \<open>gradientRatio\<close> of detectBlurType.\<close>
  "gradientRatioOf d w h =
     calculateDirectionalGradient d w h ''horizontal''
       / jsor (calculateDirectionalGradient d w h ''vertical'') (Fin 1)"

definition avgGradientOf :: "nat list \<Rightarrow> nat \<Rightarrow> nat \<Rightarrow> jsnum" where
  \<comment> \<open>The local \<open>avgGradient\<close> of detectBlurType.\<close>
  "avgGradientOf d w h =
     (calculateDirectionalGradient d w h ''horizontal''
        + calculateDirectionalGradient d w h ''vertical'') / Fin 2"

definition uniform :: "nat \<Rightarrow> nat \<Rightarrow> nat \<Rightarrow> nat list" where
  \<comment> \<open>The buffer of that width and height whose pixels all have the value v.\<close>
  "uniform width height v = replicate (width * height) v"




subsection \<open>Example inputs\<close>

definition exEdges :: edgeAnalysis where
  "exEdges = \<lparr> ed_averageStrength = Fin 50, ed_strongEdgeRatio = Fin 1.5,
                ed_assessment = ''moderate'' \<rparr>"

definition noMetrics :: blurMetrics where
  "noMetrics = \<lparr> bm_horizontalGradient = Fin 0, bm_verticalGradient = Fin 0,
      bm_gradientRatio = Fin 0, bm_consistency = Fin 0, bm_avgGradient = Fin 0 \<rparr>"

definition exBlur :: "string \<Rightarrow> real \<Rightarrow> blurAnalysis" where
  "exBlur t sev = \<lparr> bl_type = t, bl_severity = Fin sev, bl_direction = None,
      bl_metrics = noMetrics \<rparr>"

definition exImage :: "nat list" where
  \<comment> \<open>A 4 x 4 image.\<close>
  "exImage = [3, 4, 0, 4,
              0, 3, 0, 0,
              0, 0, 0, 4,
              0, 0, 0, 0]"

definition exSoft :: "nat list" where
  \<comment> \<open>The same image, four times as bright.\<close>
  "exSoft = [12, 16, 0, 16,
             0, 12, 0, 0,
             0, 0, 0, 16,
             0, 0, 0, 0]"

definition exStripes :: "nat list" where
  \<comment> \<open>A 4 x 3 image with a vertical stripe.\<close>
  "exStripes = [0, 10, 10, 0,
                0, 10, 10, 0,
                0, 10, 10, 0]"

definition drawsA :: "nat \<Rightarrow> real" where
  \<comment> \<open>Every call of Math.random gives 0.5.\<close>
  "drawsA k = 1 / 2"

definition drawsB :: "nat \<Rightarrow> real" where
  \<comment> \<open>Every fourth call gives 0, the others 0.5.\<close>
  "drawsB k = (if k mod 4 = 3 then 0 else 1 / 2)"

definition drawsC :: "nat \<Rightarrow> real" where
  \<comment> \<open>Every call gives 0.75.\<close>
  "drawsC k = 3 / 4"


section \<open>Properties of the double arithmetic\<close>

lemma expo_bounds:
  assumes "x \<noteq> 0"
  shows "2 powr of_int (expo x) \<le> \<bar>x\<bar>" and "\<bar>x\<bar> < 2 powr (of_int (expo x) + 1)"
proof -
  have p: "0 < \<bar>x\<bar>" using assms by simp
  have "of_int (expo x) \<le> log 2 \<bar>x\<bar>" by (simp add: expo_def)
  then have "2 powr of_int (expo x) \<le> 2 powr log 2 \<bar>x\<bar>" by (simp only: powr_le_cancel_iff) 
  then show "2 powr of_int (expo x) \<le> \<bar>x\<bar>" using p by simp
  have "log 2 \<bar>x\<bar> < of_int (expo x) + 1" by (simp add: expo_def)
  then have "2 powr log 2 \<bar>x\<bar> < 2 powr (of_int (expo x) + 1)" by simp
  then show "\<bar>x\<bar> < 2 powr (of_int (expo x) + 1)" using p by simp
qed

lemma expo_unique:
  assumes "2 powr of_int k \<le> \<bar>x\<bar>" "\<bar>x\<bar> < 2 powr (of_int k + 1)"
  shows "expo x = k"
proof -
  have p: "0 < \<bar>x\<bar>" using assms(1) by (smt (verit) powr_gt_zero)
  have 1: "of_int k \<le> log 2 \<bar>x\<bar>" using assms(1) p by (simp add: le_log_iff)
  have 2: "log 2 \<bar>x\<bar> < of_int k + 1" using assms(2) p by (simp add: log_less_iff)
  show ?thesis unfolding expo_def using 1 2 by (simp add: floor_eq_iff)
qed

lemma ulp_pos: "0 < ulp x"
  by (simp add: ulp_def)

lemma round_even_ge: "of_int k \<le> y \<Longrightarrow> k \<le> round_even y"
  by (simp add: round_even_def Let_def le_floor_iff) linarith

lemma round_even_le: "y \<le> of_int k \<Longrightarrow> round_even y \<le> k"
proof -
  assume a: "y \<le> of_int k"
  have f: "\<lfloor>y\<rfloor> \<le> k" using a by (simp add: floor_le_iff) 
  show ?thesis
  proof (cases "\<lfloor>y\<rfloor> = k")
    case True
    then have "y = of_int k" using a by (metis of_int_floor_le order_antisym)
    then show ?thesis by (simp add: round_even_def)
  next
    case False
    then have "\<lfloor>y\<rfloor> + 1 \<le> k" using f by simp
    then show ?thesis using f by (simp add: round_even_def Let_def)
  qed
qed

lemma round_even_int: "round_even (of_int k) = k"
  by (simp add: round_even_def)

lemma round_even_err: "\<bar>of_int (round_even y) - y\<bar> \<le> 1 / 2"
  unfolding round_even_def Let_def by (simp; linarith)

lemma ulp_small:
  assumes "expo x \<le> 52"
  shows "ulp x = 1 / 2 ^ nat (52 - expo x)"
proof -
  have "of_int (expo x) - 52 = - real (nat (52 - expo x))" using assms by simp
  then have "ulp x = 2 powr (- real (nat (52 - expo x)))" by (simp only: ulp_def)
  also have "\<dots> = 1 / 2 powr real (nat (52 - expo x))" by (simp add: powr_minus divide_inverse)
  also have "\<dots> = 1 / 2 ^ nat (52 - expo x)" by (simp add: powr_realpow)
  finally show ?thesis .
qed

lemma expo_lt_53:
  assumes "x \<noteq> 0" "\<bar>x\<bar> < 2 ^ 53"
  shows "expo x \<le> 52"
proof (rule ccontr)
  assume "\<not> expo x \<le> 52"
  then have "53 \<le> expo x" by simp
  then have "(53::real) \<le> of_int (expo x)" by linarith
  then have "(2::real) powr 53 \<le> 2 powr of_int (expo x)" by (intro powr_mono) simp_all
  moreover have "2 powr (53::real) = 2 ^ 53" using powr_realpow [of 2 53] by simp
  ultimately have "2 ^ 53 \<le> \<bar>x\<bar>" using expo_bounds(1) [OF assms(1)] by linarith
  with assms(2) show False by simp
qed

lemma ulp_times: "ulp x * 2 ^ 52 = 2 powr of_int (expo x)"
proof -
  have "(2::real) powr (of_int (expo x) - 52) * 2 powr 52 = 2 powr of_int (expo x)"
    unfolding powr_add [symmetric] by simp
  moreover have "2 powr (52::real) = 2 ^ 52" using powr_realpow [of 2 52] by simp
  ultimately show ?thesis by (simp only: ulp_def)
qed

lemma fl_small:
  assumes "x \<noteq> 0" "expo x \<le> 52"
  shows "fl x = of_int (round_even (x * 2 ^ nat (52 - expo x))) / 2 ^ nat (52 - expo x)"
  using assms(1) by (simp add: fl_def ulp_small [OF assms(2)])

lemma fl_eval:
  assumes "2 ^ 52 \<le> \<bar>x\<bar> * 2 ^ k" "\<bar>x\<bar> * 2 ^ k < 2 ^ 53"
  shows "fl x = of_int (round_even (x * 2 ^ k)) / 2 ^ k"
proof -
  have x: "x \<noteq> 0" using assms(1) by auto
  have p52: "2 powr (52::real) = 2 ^ 52" using powr_realpow [of 2 52] by simp
  have p53: "2 powr (53::real) = 2 ^ 53" using powr_realpow [of 2 53] by simp
  have pk: "2 powr real k = (2::real) ^ k" by (simp add: powr_realpow)
  have a: "2 powr of_int (52 - int k) = 2 ^ 52 / (2::real) ^ k"
    using powr_diff [of 2 52 "real k"] by (simp add: p52 pk)
  have b: "2 powr (of_int (52 - int k) + 1) = 2 ^ 53 / (2::real) ^ k"
    using powr_diff [of 2 53 "real k"] by (simp add: p53 pk algebra_simps)
  have 1: "2 powr of_int (52 - int k) \<le> \<bar>x\<bar>"
    unfolding a using assms(1) by (simp add: pos_divide_le_eq)
  have 2: "\<bar>x\<bar> < 2 powr (of_int (52 - int k) + 1)"
    unfolding b using assms(2) by (simp add: pos_less_divide_eq)
  have e: "expo x = 52 - int k" using 1 2 by (rule expo_unique)
  have "expo x \<le> 52" by (simp add: e)
  from fl_small [OF x this] show ?thesis by (simp add: e)
qed

lemma fl_zero: "fl 0 = 0"
  by (simp add: fl_def)


lemma fl_ge_pow:
  assumes "0 < x"
  shows "2 powr of_int (expo x) \<le> fl x"
proof -
  have x: "x \<noteq> 0" using assms by simp
  note u = ulp_times [of x]
  have "2 powr of_int (expo x) \<le> x" using expo_bounds(1) [OF x] assms by simp
  then have "ulp x * 2 ^ 52 \<le> x" by (simp only: u)
  then have "2 ^ 52 \<le> x / ulp x" using ulp_pos [of x] by (simp add: pos_le_divide_eq mult.commute)
  then have "of_int (2 ^ 52) \<le> x / ulp x" by simp
  then have "2 ^ 52 \<le> round_even (x / ulp x)" by (rule round_even_ge)
  then have "(2::real) ^ 52 \<le> of_int (round_even (x / ulp x))"
    by (metis of_int_le_iff of_int_numeral of_int_power)
  then have "2 ^ 52 * ulp x \<le> of_int (round_even (x / ulp x)) * ulp x"
    using ulp_pos [of x] by (simp only: mult_le_cancel_right_pos)
  then show ?thesis using x u by (simp add: fl_def mult.commute)
qed

lemma fl_pos: "0 < x \<Longrightarrow> 0 < fl x"
  using fl_ge_pow [of x] powr_gt_zero [of 2 "of_int (expo x)"] by linarith

lemma fl_nonneg: "0 \<le> x \<Longrightarrow> 0 \<le> fl x"
  using fl_pos [of x] by (cases "x = 0") (simp_all add: fl_zero less_eq_real_def)

lemma fl_nonpos:
  assumes "x \<le> 0"
  shows "fl x \<le> 0"
proof (cases "x = 0")
  case True
  then show ?thesis by (simp add: fl_zero)
next
  case False
  have "x / ulp x \<le> of_int 0" using assms ulp_pos [of x] by (simp add: divide_le_0_iff)
  then have "round_even (x / ulp x) \<le> 0" by (rule round_even_le)
  then have "of_int (round_even (x / ulp x)) * ulp x \<le> 0"
    using ulp_pos [of x] by (simp add: mult_le_0_iff)
  then show ?thesis using False by (simp add: fl_def)
qed

lemma fl_ge_int:
  assumes "0 < n" "n < 2 ^ 53" "of_int n \<le> x"
  shows "of_int n \<le> fl x"
proof -
  have xp: "0 < x" using assms by (smt (verit) of_int_0_less_iff)
  then have x: "x \<noteq> 0" by simp
  show ?thesis
  proof (cases "expo x \<le> 52")
    case True
    define k where "k = nat (52 - expo x)"
    have "of_int (n * 2 ^ k) \<le> x * 2 ^ k" using assms(3) by simp
    then have "n * 2 ^ k \<le> round_even (x * 2 ^ k)" by (rule round_even_ge)
    then have "of_int (n * 2 ^ k) \<le> (of_int (round_even (x * 2 ^ k)) :: real)"
      by (simp only: of_int_le_iff)
    then have "of_int n * 2 ^ k \<le> (of_int (round_even (x * 2 ^ k)) :: real)" by simp
    then have "of_int n \<le> of_int (round_even (x * 2 ^ k)) / (2::real) ^ k"
      by (simp add: pos_le_divide_eq)
    then show ?thesis using fl_small [OF x True] by (simp add: k_def)
  next
    case False
    then have "(53::real) \<le> of_int (expo x)" by linarith
    then have "(2::real) powr 53 \<le> 2 powr of_int (expo x)" by (intro powr_mono) simp_all
    moreover have "2 powr (53::real) = 2 ^ 53" using powr_realpow [of 2 53] by simp
    ultimately have "2 ^ 53 \<le> fl x" using fl_ge_pow [OF xp] by linarith
    moreover have "(of_int n :: real) < of_int (2 ^ 53)" using assms(2) by (simp only: of_int_less_iff)
    ultimately show ?thesis by simp
  qed
qed

lemma fl_le_int:
  assumes "0 \<le> n" "n < 2 ^ 53" "x \<le> of_int n"
  shows "fl x \<le> of_int n"
proof (cases "x \<le> 0")
  case True
  then show ?thesis using fl_nonpos [of x] assms(1) by (smt (verit) of_int_0_le_iff)
next
  case False
  then have xp: "0 < x" and x: "x \<noteq> 0" by simp_all
  have "(of_int n :: real) < of_int (2 ^ 53)" using assms(2) by (simp only: of_int_less_iff)
  then have "\<bar>x\<bar> < 2 ^ 53" using assms(3) xp by simp
  then have e: "expo x \<le> 52" using x by (intro expo_lt_53)
  define k where "k = nat (52 - expo x)"
  have "x * 2 ^ k \<le> of_int (n * 2 ^ k)" using assms(3) by simp
  then have "round_even (x * 2 ^ k) \<le> n * 2 ^ k" by (rule round_even_le)
  then have "(of_int (round_even (x * 2 ^ k)) :: real) \<le> of_int (n * 2 ^ k)"
    by (simp only: of_int_le_iff)
  then have "(of_int (round_even (x * 2 ^ k)) :: real) \<le> of_int n * 2 ^ k" by simp
  then have "of_int (round_even (x * 2 ^ k)) / (2::real) ^ k \<le> of_int n"
    by (simp add: pos_divide_le_eq)
  then show ?thesis using fl_small [OF x e] by (simp add: k_def)
qed

lemma fl_err: "\<bar>fl x - x\<bar> \<le> \<bar>x\<bar> / 2 ^ 53"
proof (cases "x = 0")
  case True
  then show ?thesis by (simp add: fl_zero)
next
  case False
  note u = ulp_times [of x]
  have ub: "ulp x * 2 ^ 52 \<le> \<bar>x\<bar>" using expo_bounds(1) [OF False] by (simp only: u)
  have "fl x - x = (of_int (round_even (x / ulp x)) - x / ulp x) * ulp x"
    using False ulp_pos [of x] by (simp add: fl_def algebra_simps)
  then have "\<bar>fl x - x\<bar> = \<bar>of_int (round_even (x / ulp x)) - x / ulp x\<bar> * ulp x"
    using ulp_pos [of x] by (simp add: abs_mult)
  also have "\<dots> \<le> 1 / 2 * ulp x"
    using round_even_err [of "x / ulp x"] ulp_pos [of x] by (intro mult_right_mono) simp_all
  also have "\<dots> \<le> \<bar>x\<bar> / 2 ^ 53" using ub by simp
  finally show ?thesis .
qed

lemma round_even_abs_bounds:
  assumes "of_int a \<le> \<bar>y\<bar>" "\<bar>y\<bar> \<le> of_int b" "0 \<le> a"
  shows "a \<le> \<bar>round_even y\<bar>" and "\<bar>round_even y\<bar> \<le> b"
proof -
  have "a \<le> \<bar>round_even y\<bar> \<and> \<bar>round_even y\<bar> \<le> b"
  proof (cases "0 \<le> y")
    case True
    then have 1: "of_int a \<le> y" and 2: "y \<le> of_int b" using assms(1,2) by linarith+
    have "a \<le> round_even y" using 1 by (rule round_even_ge)
    moreover have "round_even y \<le> b" using 2 by (rule round_even_le)
    ultimately show ?thesis using assms(3) by linarith
  next
    case False
    then have 1: "y \<le> of_int (- a)" and 2: "of_int (- b) \<le> y" using assms(1,2) by simp_all
    have "round_even y \<le> - a" using 1 by (rule round_even_le)
    moreover have "- b \<le> round_even y" using 2 by (rule round_even_ge)
    ultimately show ?thesis using assms(3) by linarith
  qed
  then show "a \<le> \<bar>round_even y\<bar>" and "\<bar>round_even y\<bar> \<le> b" by blast+
qed


lemma round_even_bounds:
  assumes "x \<noteq> 0"
  shows "2 ^ 52 \<le> \<bar>round_even (x / ulp x)\<bar>" and "\<bar>round_even (x / ulp x)\<bar> \<le> 2 ^ 53"
proof -
  note u = ulp_pos [of x]
  note ut = ulp_times [of x]
  have ab: "\<bar>x / ulp x\<bar> = \<bar>x\<bar> / ulp x" using u by (simp add: abs_divide)
  have "ulp x * 2 ^ 52 \<le> \<bar>x\<bar>" using expo_bounds(1) [OF assms] by (simp only: ut)
  then have "2 ^ 52 \<le> \<bar>x\<bar> / ulp x" using u by (simp add: pos_le_divide_eq mult.commute)
  then have b1: "of_int (2 ^ 52) \<le> \<bar>x / ulp x\<bar>" by (simp only: ab) simp
  have "(2::real) powr (of_int (expo x) + 1) = 2 powr of_int (expo x) * 2" by (simp add: powr_add)
  then have "\<bar>x\<bar> < ulp x * 2 ^ 52 * 2" using expo_bounds(2) [OF assms] by (simp only: ut)
  then have "\<bar>x\<bar> < 2 ^ 53 * ulp x" by simp
  then have "\<bar>x\<bar> / ulp x \<le> 2 ^ 53" using u by (simp add: pos_divide_le_eq)
  then have b2: "\<bar>x / ulp x\<bar> \<le> of_int (2 ^ 53)" by (simp only: ab) simp
  show "2 ^ 52 \<le> \<bar>round_even (x / ulp x)\<bar>" using round_even_abs_bounds(1) [OF b1 b2] by simp
  show "\<bar>round_even (x / ulp x)\<bar> \<le> 2 ^ 53" using round_even_abs_bounds(2) [OF b1 b2] by simp
qed

lemma fl_idem: "fl (fl x) = fl x"
proof (cases "x = 0")
  case True
  then show ?thesis by (simp add: fl_zero)
next
  case False
  define u where "u = ulp x"
  define r where "r = round_even (x / u)"
  have u: "0 < u" unfolding u_def by (rule ulp_pos)
  have ut: "u * 2 ^ 52 = 2 powr of_int (expo x)" unfolding u_def by (rule ulp_times)
  have flx: "fl x = of_int r * u" using False by (simp add: fl_def r_def u_def)
  have rb: "2 ^ 52 \<le> \<bar>r\<bar>" "\<bar>r\<bar> \<le> 2 ^ 53"
    unfolding r_def u_def using round_even_bounds [OF False] by simp_all
  have rr: "(2::real) ^ 52 \<le> \<bar>of_int r\<bar>" "\<bar>of_int r :: real\<bar> \<le> 2 ^ 53"
  proof -
    have "(of_int (2 ^ 52) :: real) \<le> of_int \<bar>r\<bar>" using rb(1) by (simp only: of_int_le_iff)
    then show "(2::real) ^ 52 \<le> \<bar>of_int r\<bar>" by simp
    have "(of_int \<bar>r\<bar> :: real) \<le> of_int (2 ^ 53)" using rb(2) by (simp only: of_int_le_iff)
    then show "\<bar>of_int r :: real\<bar> \<le> 2 ^ 53" by simp
  qed
  have nz: "fl x \<noteq> 0" using flx u rb(1) by auto
  have ab: "\<bar>fl x\<bar> = \<bar>of_int r\<bar> * u" using u by (simp add: flx abs_mult)
  have lo: "2 powr of_int (expo x) \<le> \<bar>fl x\<bar>"
  proof -
    have "2 ^ 52 * u \<le> \<bar>of_int r\<bar> * u" using rr(1) u by (simp only: mult_le_cancel_right_pos)
    then show ?thesis using ut by (simp add: ab mult.commute)
  qed
  show ?thesis
  proof (cases "\<bar>r\<bar> < 2 ^ 53")
    case True
    have "(of_int \<bar>r\<bar> :: real) < of_int (2 ^ 53)" using True by (simp only: of_int_less_iff)
    then have "\<bar>of_int r :: real\<bar> < 2 ^ 53" by simp
    then have "\<bar>of_int r\<bar> * u < 2 ^ 53 * u" using u by (simp only: mult_less_cancel_right_pos)
    also have "\<dots> = 2 powr of_int (expo x) * 2" using ut by simp
    also have "\<dots> = 2 powr (of_int (expo x) + 1)" by (simp add: powr_add)
    finally have hi: "\<bar>fl x\<bar> < 2 powr (of_int (expo x) + 1)" by (simp only: ab)
    have e: "expo (fl x) = expo x" using lo hi by (rule expo_unique)
    have uu: "ulp (fl x) = u" by (simp only: ulp_def e u_def)
    have "fl x / u = of_int r" using u by (simp add: flx)
    then have q: "round_even (fl x / u) = r" by (simp only: round_even_int)
    have "fl (fl x) = of_int (round_even (fl x / ulp (fl x))) * ulp (fl x)"
      using nz by (simp only: fl_def [of "fl x"] if_False)
    also have "\<dots> = of_int r * u" by (simp only: uu q)
    finally show ?thesis by (simp only: flx)
  next
    case False
    then have r: "\<bar>r\<bar> = 2 ^ 53" using rb(2) by simp
    then have "(of_int \<bar>r\<bar> :: real) = of_int (2 ^ 53)" by (simp only:)
    then have ar: "\<bar>of_int r :: real\<bar> = 2 ^ 53" by simp
    have v: "\<bar>fl x\<bar> = 2 powr (of_int (expo x) + 1)"
    proof -
      have "\<bar>fl x\<bar> = 2 ^ 53 * u" by (simp only: ab ar)
      also have "\<dots> = 2 powr of_int (expo x) * 2" using ut by simp
      also have "\<dots> = 2 powr (of_int (expo x) + 1)" by (simp add: powr_add)
      finally show ?thesis .
    qed
    have lo': "2 powr of_int (expo x + 1) \<le> \<bar>fl x\<bar>" by (simp add: v)
    have hi': "\<bar>fl x\<bar> < 2 powr (of_int (expo x + 1) + 1)" by (simp add: v)
    have e: "expo (fl x) = expo x + 1" using lo' hi' by (rule expo_unique)
    have "ulp (fl x) = 2 powr (of_int (expo x) - 52 + 1)" by (simp add: ulp_def e algebra_simps)
    also have "\<dots> = 2 powr (of_int (expo x) - 52) * 2" by (simp only: powr_add) simp
    finally have uu: "ulp (fl x) = 2 * u" by (simp add: u_def ulp_def)
    have "(2::int) dvd 2 ^ 53" by simp
    then have "2 dvd \<bar>r\<bar>" by (simp only: r)
    then have "2 dvd r" by (simp only: dvd_abs_iff)
    then obtain h where h: "r = 2 * h" by (elim dvdE)
    have "fl x / (2 * u) = of_int h" using u by (simp add: flx h)
    then have q: "round_even (fl x / (2 * u)) = h" by (simp only: round_even_int)
    have "fl (fl x) = of_int (round_even (fl x / ulp (fl x))) * ulp (fl x)"
      using nz by (simp only: fl_def [of "fl x"] if_False)
    also have "\<dots> = of_int h * (2 * u)" by (simp only: uu q)
    also have "\<dots> = of_int r * u" by (simp add: h)
    finally show ?thesis by (simp only: flx)
  qed
qed

lemma fl_near:
  assumes "\<bar>x\<bar> \<le> 1000"
  shows "\<bar>fl x - x\<bar> \<le> 1 / 1000"
proof -
  have "\<bar>x\<bar> / 2 ^ 53 \<le> 1000 / 2 ^ 53" using assms by (simp only: divide_right_mono zero_le_power zero_le_numeral)
  also have "\<dots> \<le> (1 / 1000 :: real)" by simp
  finally show ?thesis using fl_err [of x] by linarith
qed

lemma fl_near_small:
  assumes "\<bar>x\<bar> \<le> 1"
  shows "\<bar>fl x - x\<bar> \<le> 1 / 1000000"
proof -
  have "\<bar>x\<bar> / 2 ^ 53 \<le> 1 / 2 ^ 53" using assms by (simp only: divide_right_mono zero_le_power zero_le_numeral)
  also have "\<dots> \<le> (1 / 1000000 :: real)" by simp
  finally show ?thesis using fl_err [of x] by linarith
qed

lemma coefficient_term:
  assumes "0 \<le> c" "c \<le> 1" "v < 256"
  shows "\<bar>fl (fl c * real v) - c * real v\<bar> \<le> 2 / 1000"
proof -
  have c: "\<bar>fl c - c\<bar> \<le> 1 / 1000000" using assms by (intro fl_near_small) simp
  have v: "0 \<le> real v" "real v \<le> 255" using assms by simp_all
  have "\<bar>fl c * real v - c * real v\<bar> = \<bar>fl c - c\<bar> * real v"
    by (simp add: left_diff_distrib [symmetric] abs_mult)
  also have "\<dots> \<le> 1 / 1000000 * 255" using c v by (intro mult_mono) simp_all
  finally have p: "\<bar>fl c * real v - c * real v\<bar> \<le> 1 / 1000" by simp
  have "c * real v \<le> 1 * 255" using assms v by (intro mult_mono) simp_all
  moreover have "0 \<le> c * real v" using assms by simp
  ultimately have "\<bar>fl c * real v\<bar> \<le> 1000" using p by linarith
  then have "\<bar>fl (fl c * real v) - fl c * real v\<bar> \<le> 1 / 1000" by (rule fl_near)
  then show ?thesis using p by linarith
qed




section \<open>Properties of the scoring engine\<close>

subsection \<open>Rounding\<close>

lemma Math_round_mono: "x \<le> y \<Longrightarrow> Math_round x \<le> Math_round y"
  by (simp add: Math_round_def floor_mono)

lemma Math_round_int: "Math_round (of_int n) = of_int n"
  by (simp add: Math_round_def)

subsection \<open>The fields of the result\<close>

lemma calculateScores_overall:
  "res_overall (calculateScores a opts) = Math_round (overallScore a opts)"
  by (simp add: calculateScores_def overallScore_def Let_def)

lemma calculateScores_rating:
  "res_rating (calculateScores a opts) = calculateStarRating (overallScore a opts)"
  by (simp add: calculateScores_def overallScore_def Let_def)

lemma calculateScores_classification:
  "res_classification (calculateScores a opts)
     = classifyImage (overallScore a opts) (makeScores a) a"
  by (simp add: calculateScores_def overallScore_def Let_def)

lemma calculateScores_keeper:
  "res_keeperProbability (calculateScores a opts)
     = calculateKeeperProbability (Fin (overallScore a opts)) (res_issues (calculateScores a opts))"
  by (simp add: calculateScores_def overallScore_def Let_def)

subsection \<open>The example inputs, evaluated\<close>

lemma makeScores_exA:
  "makeScores exA = \<lparr> sc_sharpness = 72, sc_exposure = 72, sc_focusAccuracy = 75,
      sc_composition = 67, sc_noise = 75, sc_dynamicRange = 70, sc_horizonLevel = None \<rparr>"
  by (simp add: makeScores_def exA_def scoring_calculateSharpnessScore_def
      scoring_calculateExposureScore_def calculateFocusAccuracyScore_def calculateNoiseScore_def
      exifIso_def orDefault_def Math_round_def)

lemma makeScores_exB:
  "makeScores exB = \<lparr> sc_sharpness = 72, sc_exposure = 72, sc_focusAccuracy = 75,
      sc_composition = 70, sc_noise = 75, sc_dynamicRange = 70, sc_horizonLevel = None \<rparr>"
  by (simp add: makeScores_def exA_def exB_def scoring_calculateSharpnessScore_def
      scoring_calculateExposureScore_def calculateFocusAccuracyScore_def calculateNoiseScore_def
      exifIso_def orDefault_def Math_round_def)

lemma makeScores_exMotion:
  "makeScores exMotion = \<lparr> sc_sharpness = 100, sc_exposure = 100, sc_focusAccuracy = 85,
      sc_composition = 100, sc_noise = 100, sc_dynamicRange = 100, sc_horizonLevel = None \<rparr>"
  by (simp add: makeScores_def exMotion_def scoring_calculateSharpnessScore_def
      scoring_calculateExposureScore_def calculateFocusAccuracyScore_def calculateNoiseScore_def
      exifIso_def orDefault_def Math_round_def)

lemma makeScores_exBlown:
  "makeScores exBlown = \<lparr> sc_sharpness = 90, sc_exposure = 80, sc_focusAccuracy = 85,
      sc_composition = 80, sc_noise = 100, sc_dynamicRange = 90, sc_horizonLevel = None \<rparr>"
  by (simp add: makeScores_def exBlown_def scoring_calculateSharpnessScore_def
      scoring_calculateExposureScore_def calculateFocusAccuracyScore_def calculateNoiseScore_def
      exifIso_def orDefault_def Math_round_def)

lemma makeScores_exHorizon:
  "makeScores exHorizon = \<lparr> sc_sharpness = 72, sc_exposure = 72, sc_focusAccuracy = 75,
      sc_composition = 67, sc_noise = 75, sc_dynamicRange = 70, sc_horizonLevel = Some 100 \<rparr>"
  by (simp add: makeScores_def exA_def exHorizon_def scoring_calculateSharpnessScore_def
      scoring_calculateExposureScore_def calculateFocusAccuracyScore_def calculateNoiseScore_def
      exifIso_def orDefault_def Math_round_def)

lemmas overall_eval =
  overallScore_def overallOf_def weightedLoop_def weightedStep_def actualWeights_def
  optsGeneral_def optsLandscape_def actualMode_def config_weights_def weights_general_def
  weights_landscape_def scores_get_def

lemma overallScore_exA: "overallScore exA optsGeneral = 71.8"
  by (simp add: makeScores_exA overall_eval)

lemma overallScore_exB: "overallScore exB optsGeneral = 72.25"
  by (simp add: makeScores_exB overall_eval)

lemma overallScore_exMotion: "overallScore exMotion optsGeneral = 97.75"
  by (simp add: makeScores_exMotion overall_eval)

lemma overallScore_exBlown: "overallScore exBlown optsGeneral = 86.25"
  by (simp add: makeScores_exBlown overall_eval)

lemma overallScore_exA_landscape: "overallScore exA optsLandscape = 634 / 9"
  by (simp add: makeScores_exA overall_eval)

lemma overallScore_exHorizon_landscape: "overallScore exHorizon optsLandscape = 73.4"
  by (simp add: makeScores_exHorizon overall_eval)

subsection \<open>The weighted average\<close>

lemma weightedStep_fold:
  "fold (weightedStep sc) ws (s, t) = (s + spec_weightedSum sc ws, t + spec_weightTotal sc ws)"
proof (induction ws arbitrary: s t)
  case Nil
  show ?case by (simp add: spec_weightedSum_def spec_weightTotal_def)
next
  case (Cons kw ws)
  obtain k w where kw: "kw = (k, w)" by (cases kw)
  show ?case
  proof (cases "scores_get sc k")
    case (Val v)
    then show ?thesis using Cons.IH [of "s + v * w" "t + w"]
      by (simp add: kw weightedStep_def spec_weightedSum_def spec_weightTotal_def present_def
          valueOf_def algebra_simps)
  next
    case Null
    then show ?thesis using Cons.IH [of s t]
      by (simp add: kw weightedStep_def spec_weightedSum_def spec_weightTotal_def present_def)
  next
    case Undefined
    then show ?thesis using Cons.IH [of s t]
      by (simp add: kw weightedStep_def spec_weightedSum_def spec_weightTotal_def present_def)
  qed
qed

lemma overallOf_spec:
  "overallOf sc ws =
     (if spec_weightTotal sc ws > 0 then spec_weightedSum sc ws / spec_weightTotal sc ws else 0)"
  by (simp add: overallOf_def weightedLoop_def weightedStep_fold)

lemma present_horizonLevel:
  "present (makeScores a) ''horizonLevel''
     = (case an_composition a of None \<Rightarrow> False | Some c \<Rightarrow> co_horizonDetected c)"
  by (simp add: present_def scores_get_def makeScores_def split: option.split)

lemma present_keys:
  "present sc key =
     (key \<in> {''sharpness'', ''exposure'', ''focusAccuracy'', ''composition'', ''noise'',
              ''dynamicRange''}
      \<or> (key = ''horizonLevel'' \<and> sc_horizonLevel sc \<noteq> None))"
  by (simp add: present_def scores_get_def split: option.split)

text \<open>
  C6. In the overall weighted average a sub-score is counted, in the numerator and in the
  denominator, exactly when the active weight map has an entry for it and its value is
  neither null nor undefined: the loop of calculateScores computes the quotient of the two
  sums over those entries, and 0 when the sum of their weights is not positive. The map
  'landscape' has no entry for focusAccuracy, and horizonLevel is null exactly when no
  horizon was detected.
\<close>

theorem overall_is_average_of_present_scores:
  "overallScore a opts =
     (if spec_weightTotal (makeScores a) (actualWeights opts) > 0
      then spec_weightedSum (makeScores a) (actualWeights opts)
           / spec_weightTotal (makeScores a) (actualWeights opts)
      else 0)
   \<and> overallOf sc [] = 0
   \<and> ''focusAccuracy'' \<notin> set (map fst weights_landscape)
   \<and> present (makeScores a) ''horizonLevel''
       = (case an_composition a of None \<Rightarrow> False | Some c \<Rightarrow> co_horizonDetected c)"
  by (simp add: overallScore_def overallOf_spec present_horizonLevel weights_landscape_def
      spec_weightTotal_def)

theorem overall_is_average_of_present_scores_witness:
  "overallScore exA optsLandscape = 634 / 9
   \<and> spec_weightTotal (makeScores exA) (actualWeights optsLandscape) = 0.9
   \<and> spec_weightedSum (makeScores exA) (actualWeights optsLandscape) = 63.4
   \<and> \<not> present (makeScores exA) ''horizonLevel''
   \<and> overallScore exHorizon optsLandscape = 73.4
   \<and> spec_weightTotal (makeScores exHorizon) (actualWeights optsLandscape) = 1"
proof -
  have t: "spec_weightTotal (makeScores exA) (actualWeights optsLandscape) = 0.9"
    by (simp add: spec_weightTotal_def makeScores_exA present_keys actualWeights_def
        optsLandscape_def actualMode_def config_weights_def weights_landscape_def)
  have t': "spec_weightTotal (makeScores exHorizon) (actualWeights optsLandscape) = 1"
    by (simp add: spec_weightTotal_def makeScores_exHorizon present_keys actualWeights_def
        optsLandscape_def actualMode_def config_weights_def weights_landscape_def)
  have p: "\<not> present (makeScores exA) ''horizonLevel''"
    by (simp add: makeScores_exA present_keys)
  show ?thesis
    using overall_is_average_of_present_scores [of exA optsLandscape]
      overall_is_average_of_present_scores [of exHorizon optsLandscape]
    by (simp add: t t' p overallScore_exA_landscape overallScore_exHorizon_landscape)
qed

subsection \<open>The rating\<close>

lemma rating_thresholds:
  "calculateStarRating s =
     (if 72 \<le> s then 5 else if 58 \<le> s then 4 else if 45 \<le> s then 3
      else if 30 \<le> s then 2 else 1)"
  by (simp add: calculateStarRating_def thresholds_select_def thresholds_good_def
      thresholds_review_def thresholds_maybe_def)


subsection \<open>Auto-reject\<close>

lemma checkAutoReject_condition: "(checkAutoReject a \<noteq> []) = autoRejectCondition a"
  by (auto simp: checkAutoReject_def autoRejectCondition_def autoReject_motionBlurSeverity_def
      autoReject_defocusSeverity_def autoReject_highlightClip_def autoReject_shadowClip_def
      split: option.splits)

lemma classifyImage_category:
  "cl_category (classifyImage score sc a)
     = (if autoRejectCondition a then ''reject'' else thresholdCategory score)"
  by (simp add: classifyImage_def Let_def checkAutoReject_condition)

lemma classifyImage_autoReject:
  "cl_autoReject (classifyImage score sc a)
     = (if autoRejectCondition a then Some (checkAutoReject a) else None)"
  by (simp add: classifyImage_def Let_def checkAutoReject_condition)

lemma thresholdCategory_thresholds:
  "thresholdCategory s =
     (if 72 \<le> s then ''select'' else if 58 \<le> s then ''good'' else if 45 \<le> s then ''review''
      else if 30 \<le> s then ''maybe'' else ''reject'')"
  by (simp add: thresholdCategory_def thresholds_select_def thresholds_good_def
      thresholds_review_def thresholds_maybe_def)

lemma autoRejectCondition_exMotion: "autoRejectCondition exMotion"
  by (simp add: autoRejectCondition_def exMotion_def)

lemma autoRejectCondition_exBlown: "autoRejectCondition exBlown"
  by (simp add: autoRejectCondition_def exBlown_def)

lemma autoRejectCondition_exA: "\<not> autoRejectCondition exA"
  by (simp add: autoRejectCondition_def exA_def)

lemma checkAutoReject_exBlown: "checkAutoReject exBlown = [''blown-highlights'']"
  by (simp add: checkAutoReject_def exBlown_def autoReject_highlightClip_def
      autoReject_shadowClip_def)

text \<open>
  C5. Whenever an auto-reject condition holds (motion blur of severity at least 0.85,
  defocus of severity at least 0.85, at least 25 percent of the highlights clipped, at least
  25 percent of the shadows clipped), the category is 'reject' for every score, and so in
  the result of calculateScores; when none holds, the category is the one of the score
  thresholds and the field autoReject is null.
\<close>

theorem auto_reject_forces_reject:
  "(autoRejectCondition a \<longrightarrow>
      cl_category (classifyImage score sc a) = ''reject''
      \<and> cl_category (res_classification (calculateScores a opts)) = ''reject'')
   \<and> (\<not> autoRejectCondition a \<longrightarrow>
      cl_category (res_classification (calculateScores a opts)) =
        (let s = overallScore a opts
         in if 72 \<le> s then ''select'' else if 58 \<le> s then ''good''
            else if 45 \<le> s then ''review'' else if 30 \<le> s then ''maybe'' else ''reject'')
      \<and> cl_autoReject (res_classification (calculateScores a opts)) = None)"
  by (simp add: calculateScores_classification classifyImage_category classifyImage_autoReject
      thresholdCategory_thresholds Let_def)

theorem auto_reject_forces_reject_witness:
  "autoRejectCondition exMotion
   \<and> overallScore exMotion optsGeneral = 97.75
   \<and> cl_category (res_classification (calculateScores exMotion optsGeneral)) = ''reject''
   \<and> \<not> autoRejectCondition exA
   \<and> cl_category (res_classification (calculateScores exA optsGeneral)) = ''good''
   \<and> cl_autoReject (res_classification (calculateScores exA optsGeneral)) = None"
  using auto_reject_forces_reject [of exMotion 0 "makeScores exMotion" optsGeneral]
    auto_reject_forces_reject [of exA 0 "makeScores exA" optsGeneral]
  by (simp add: autoRejectCondition_exMotion autoRejectCondition_exA overallScore_exMotion
      overallScore_exA)

text \<open>
  C10. Auto-reject changes the category only: where an auto-reject condition holds, the
  rating is still the one of the score thresholds, while the category is 'reject' and the
  reasons are listed. The witness is a result with category 'reject', a reason and rating 5.
\<close>

theorem auto_reject_keeps_rating:
  assumes "autoRejectCondition a"
  shows "res_rating (calculateScores a opts) =
        (let s = overallScore a opts
         in if 72 \<le> s then 5 else if 58 \<le> s then 4 else if 45 \<le> s then 3
            else if 30 \<le> s then 2 else 1)
    \<and> cl_category (res_classification (calculateScores a opts)) = ''reject''
    \<and> cl_autoReject (res_classification (calculateScores a opts)) = Some (checkAutoReject a)
    \<and> checkAutoReject a \<noteq> []"
  using assms checkAutoReject_condition [of a]
  by (simp add: calculateScores_rating rating_thresholds calculateScores_classification
      classifyImage_category classifyImage_autoReject Let_def)

theorem auto_reject_keeps_rating_witness:
  "autoRejectCondition exBlown
   \<and> res_rating (calculateScores exBlown optsGeneral) = 5
   \<and> cl_category (res_classification (calculateScores exBlown optsGeneral)) = ''reject''
   \<and> cl_autoReject (res_classification (calculateScores exBlown optsGeneral))
       = Some [''blown-highlights'']"
  using auto_reject_keeps_rating [OF autoRejectCondition_exBlown, of optsGeneral]
  by (simp add: autoRejectCondition_exBlown overallScore_exBlown checkAutoReject_exBlown)

subsection \<open>The rating and the returned overall score\<close>

text \<open>
  C4. The claim lets the highest threshold that the returned overall score reaches decide
  the rating, and so does the documentation of the repository (README: a score of 72 or
  more is a 'select' with 5 stars, a score of 58 to 71 a 'good' with 4 stars; the file
  organiser writes the returned score, the rating and the category into the file name). The
  code returns the weighted average rounded to an integer, but takes the rating and the
  category from the average before it is rounded. The first input below has sub-scores
  72, 75, 72, 67, 75, 70 under the profile 'general': the average is 71.8, the returned
  overall is 72, which reaches the threshold select = 72, and yet the rating is 4 and the
  category 'good'. The second input differs in the composition score only (70 for 67): its
  average is 72.25, returned as the same overall 72, with rating 5.
\<close>

theorem returned_overall_72_is_rated_4:
  "overallScore exA optsGeneral = 71.8
   \<and> res_overall (calculateScores exA optsGeneral) = 72
   \<and> thresholds_select \<le> res_overall (calculateScores exA optsGeneral)
   \<and> res_rating (calculateScores exA optsGeneral) = 4
   \<and> cl_category (res_classification (calculateScores exA optsGeneral)) = ''good''
   \<and> overallScore exB optsGeneral = 72.25
   \<and> res_overall (calculateScores exB optsGeneral) = 72
   \<and> res_rating (calculateScores exB optsGeneral) = 5"
  by (simp add: calculateScores_overall calculateScores_rating calculateScores_classification
      classifyImage_category thresholdCategory_thresholds autoRejectCondition_exA
      overallScore_exA overallScore_exB rating_thresholds thresholds_select_def Math_round_def)

subsection \<open>Keeper probability\<close>

lemma fl_p0: "fl (56.5 / 100) = 1272266894732165 / 2251799813685248"
  using fl_eval [of "56.5 / 100" 53] by (simp add: round_even_def)

lemma fl_005: "fl 0.05 = 3602879701896397 / 72057594037927936"
  using fl_eval [of "0.05" 57] by (simp add: round_even_def)

lemma fl_p2: "fl (1272266894732165 / 2251799813685248 - 3602879701896397 / 72057594037927936)
    = 2319353808095805 / 4503599627370496"
  using fl_eval [of "1272266894732165 / 2251799813685248 - 3602879701896397 / 72057594037927936" 53]
  by (simp add: round_even_def)

lemma fl_q: "fl (2319353808095805 / 4503599627370496 * 100) = 7247980650299391 / 140737488355328"
  using fl_eval [of "2319353808095805 / 4503599627370496 * 100" 47]
  by (simp add: round_even_def)

lemma fl_051: "fl (51 / 100) = 2296835809958953 / 4503599627370496"
  using fl_eval [of "51 / 100" 53] by (simp add: round_even_def)

lemma probability_565: "spec_probability_double 56.5 exMedium = 2319353808095805 / 4503599627370496"
proof -
  have a: "fl (fl (56.5 / 100) - fl (0 * fl 0.15)) = fl (56.5 / 100)"
    by (simp add: fl_zero fl_idem)
  have b: "fl (1 * fl 0.05) = fl 0.05" by (simp add: fl_idem)
  have "spec_probability_double 56.5 exMedium
      = fl (fl (fl (56.5 / 100) - fl (0 * fl 0.15)) - fl (1 * fl 0.05))"
    by (simp add: spec_probability_double_def exMedium_def)
  also have "\<dots> = fl (fl (56.5 / 100) - fl 0.05)" by (simp only: a b)
  also have "\<dots> = 2319353808095805 / 4503599627370496" by (simp only: fl_p0 fl_005 fl_p2)
  finally show ?thesis .
qed

lemma round2_double_565: "round2_double (2319353808095805 / 4503599627370496) = fl (51 / 100)"
proof -
  have "Math_round (7247980650299391 / 140737488355328) = 51" by (simp add: Math_round_def)
  then show ?thesis by (simp only: round2_double_def fl_q)
qed


lemma Math_clamp_fin: "Math_max (Fin 0) (Math_min (Fin 1) (Fin r)) = Fin (max 0 (min 1 r))"
  by (simp add: max_def min_def)

lemma keeper_unfold:
  "calculateKeeperProbability (Fin s) issues
     = Fin (max 0 (min 1 (round2_double (spec_probability_double s issues))))"
proof -
  have "calculateKeeperProbability (Fin s) issues
     = Math_max (Fin 0) (Math_min (Fin 1) (Fin (round2_double (spec_probability_double s issues))))"
    by (simp add: calculateKeeperProbability_def Let_def round2_double_def
        spec_probability_double_def)
  then show ?thesis by (simp only: Math_clamp_fin)
qed

lemma round2_double_nonneg:
  assumes "0 \<le> p"
  shows "0 \<le> round2_double p"
proof -
  have "0 \<le> fl (p * 100)" using assms by (intro fl_nonneg) simp
  then have "0 \<le> Math_round (fl (p * 100))" by (simp add: Math_round_def)
  then have "0 \<le> Math_round (fl (p * 100)) / 100" by simp
  then show ?thesis unfolding round2_double_def by (rule fl_nonneg)
qed

lemma round2_double_nonpos:
  assumes "p \<le> 0"
  shows "round2_double p \<le> 0"
proof -
  have "fl (p * 100) \<le> 0" using assms by (intro fl_nonpos) simp
  then have "\<lfloor>fl (p * 100) + 1 / 2\<rfloor> \<le> 0" by (simp add: floor_le_iff)
  then have "Math_round (fl (p * 100)) \<le> 0" by (simp add: Math_round_def)
  then have "Math_round (fl (p * 100)) / 100 \<le> 0" by simp
  then show ?thesis unfolding round2_double_def by (rule fl_nonpos)
qed

lemma round2_double_ge_1:
  assumes "1 \<le> p"
  shows "1 \<le> round2_double p"
proof -
  have "of_int 100 \<le> p * 100" using assms by simp
  then have "of_int 100 \<le> fl (p * 100)" by (intro fl_ge_int) simp_all
  then have "100 \<le> \<lfloor>fl (p * 100) + 1 / 2\<rfloor>" by (simp add: le_floor_iff)
  then have "100 \<le> Math_round (fl (p * 100))" by (simp add: Math_round_def)
  then have "of_int 1 \<le> Math_round (fl (p * 100)) / 100" by simp
  then have "of_int 1 \<le> fl (Math_round (fl (p * 100)) / 100)" by (intro fl_ge_int) simp_all
  then show ?thesis by (simp add: round2_double_def)
qed

lemma round2_double_le_1:
  assumes "p \<le> 1"
  shows "round2_double p \<le> 1"
proof -
  have "p * 100 \<le> of_int 100" using assms by simp
  then have "fl (p * 100) \<le> of_int 100" by (intro fl_le_int) simp_all
  then have "\<lfloor>fl (p * 100) + 1 / 2\<rfloor> \<le> 100" by (simp add: floor_le_iff)
  then have "Math_round (fl (p * 100)) \<le> 100" by (simp add: Math_round_def)
  then have "Math_round (fl (p * 100)) / 100 \<le> of_int 1" by simp
  then have "fl (Math_round (fl (p * 100)) / 100) \<le> of_int 1" by (intro fl_le_int) simp_all
  then show ?thesis by (simp add: round2_double_def)
qed

lemma round2_double_0: "round2_double 0 = 0"
  using round2_double_nonneg [of 0] round2_double_nonpos [of 0] by simp

lemma round2_double_1: "round2_double 1 = 1"
  using round2_double_ge_1 [of 1] round2_double_le_1 [of 1] by simp

lemma clamp_round2_double:
  "max 0 (min 1 (round2_double p)) = round2_double (max 0 (min 1 p))"
proof -
  consider "p \<le> 0" | "0 < p" "p < 1" | "1 \<le> p" by linarith
  then show ?thesis
  proof cases
    case 1
    then have "round2_double p \<le> 0" by (rule round2_double_nonpos)
    with 1 show ?thesis by (simp add: round2_double_0 max_def min_def)
  next
    case 2
    then have "0 \<le> round2_double p" "round2_double p \<le> 1"
      by (simp_all add: round2_double_nonneg round2_double_le_1)
    with 2 show ?thesis by (simp add: max_def min_def)
  next
    case 3
    then have "1 \<le> round2_double p" by (rule round2_double_ge_1)
    with 3 show ?thesis by (simp add: round2_double_1 max_def min_def)
  qed
qed

lemma keeper_double:
  "calculateKeeperProbability (Fin s) issues = Fin (spec_keeperProbability_double s issues)"
  by (simp only: keeper_unfold clamp_round2_double spec_keeperProbability_double_def)

lemma keeper_double_range:
  "0 \<le> spec_keeperProbability_double s issues \<and> spec_keeperProbability_double s issues \<le> 1"
  unfolding spec_keeperProbability_double_def
  by (simp add: round2_double_nonneg round2_double_le_1)

lemma keeper_double_hundredth:
  "\<exists>k. 0 \<le> k \<and> k \<le> 100 \<and> spec_keeperProbability_double s issues = fl (of_int k / 100)"
proof -
  define c where "c = max 0 (min 1 (spec_probability_double s issues))"
  define k where "k = \<lfloor>fl (c * 100) + 1 / 2\<rfloor>"
  have c: "0 \<le> c" "c \<le> 1" by (simp_all add: c_def)
  have "0 \<le> fl (c * 100)" using c by (intro fl_nonneg) simp
  then have k0: "0 \<le> k" by (simp add: k_def)
  have "c * 100 \<le> of_int 100" using c by simp
  then have "fl (c * 100) \<le> of_int 100" by (intro fl_le_int) simp_all
  then have k1: "k \<le> 100" by (simp add: k_def floor_le_iff)
  have "spec_keeperProbability_double s issues = fl (of_int k / 100)"
    by (simp add: spec_keeperProbability_double_def round2_double_def Math_round_def c_def k_def)
  then show ?thesis using k0 k1 by blast
qed

lemma keeper_nan: "calculateKeeperProbability NaN issues = NaN"
  by (simp add: calculateKeeperProbability_def Let_def)


lemma penalty_near:
  assumes "0 \<le> c" "c \<le> 1" "n < 256"
  shows "\<bar>fl (real n * fl c) - c * real n\<bar> \<le> 2 / 1000"
  using coefficient_term [OF assms] by (simp only: mult.commute [of "real n" "fl c"])

lemma probability_near:
  assumes "\<bar>s\<bar> \<le> 10000" "length issues < 256"
  shows "\<bar>spec_probability_double s issues
          - (s / 100
             - 0.15 * real (length (filter (\<lambda>i. is_severity i = ''high'') issues))
             - 0.05 * real (length (filter (\<lambda>i. is_severity i = ''medium'') issues)))\<bar>
         \<le> 7 / 1000"
proof -
  define h where "h = length (filter (\<lambda>i. is_severity i = ''high'') issues)"
  define m where "m = length (filter (\<lambda>i. is_severity i = ''medium'') issues)"
  define p0 where "p0 = fl (s / 100)"
  define a where "a = fl (real h * fl (15 / 100))"
  define b where "b = fl (real m * fl (5 / 100))"
  have "h \<le> length issues" "m \<le> length issues" by (simp_all add: h_def m_def)
  then have hm: "h < 256" "m < 256" using assms(2) by linarith+
  then have v: "real h \<le> 255" "real m \<le> 255" "0 \<le> real h" "0 \<le> real m" by simp_all
  have s: "\<bar>s / 100\<bar> \<le> 100" using assms(1) by simp
  then have "\<bar>s / 100\<bar> \<le> 1000" by linarith
  then have e0: "\<bar>p0 - s / 100\<bar> \<le> 1 / 1000" unfolding p0_def by (rule fl_near)
  have ea: "\<bar>a - 15 / 100 * real h\<bar> \<le> 2 / 1000"
    unfolding a_def using hm(1) by (intro penalty_near) simp_all
  have eb: "\<bar>b - 5 / 100 * real m\<bar> \<le> 2 / 1000"
    unfolding b_def using hm(2) by (intro penalty_near) simp_all
  have "\<bar>p0 - a\<bar> \<le> 1000" using e0 ea s v by linarith
  then have e1: "\<bar>fl (p0 - a) - (p0 - a)\<bar> \<le> 1 / 1000" by (rule fl_near)
  have "\<bar>fl (p0 - a) - b\<bar> \<le> 1000" using e1 e0 ea eb s v by linarith
  then have e2: "\<bar>fl (fl (p0 - a) - b) - (fl (p0 - a) - b)\<bar> \<le> 1 / 1000" by (rule fl_near)
  have "spec_probability_double s issues = fl (fl (p0 - a) - b)"
    by (simp add: spec_probability_double_def p0_def a_def b_def h_def m_def)
  moreover have "s / 100
             - 0.15 * real (length (filter (\<lambda>i. is_severity i = ''high'') issues))
             - 0.05 * real (length (filter (\<lambda>i. is_severity i = ''medium'') issues))
       = s / 100 - 15 / 100 * real h - 5 / 100 * real m"
    by (simp add: h_def m_def)
  ultimately show ?thesis using e0 ea eb e1 e2 by linarith
qed

lemma floor_near:
  assumes "\<bar>x - y\<bar> < (1::real)"
  shows "\<bar>\<lfloor>x\<rfloor> - \<lfloor>y\<rfloor>\<bar> \<le> 1"
proof -
  have a: "x - y < 1" "y - x < 1" using assms by linarith+
  have fx: "of_int \<lfloor>x\<rfloor> \<le> x" "x < of_int \<lfloor>x\<rfloor> + 1" by linarith+
  have fy: "of_int \<lfloor>y\<rfloor> \<le> y" "y < of_int \<lfloor>y\<rfloor> + 1" by linarith+
  have "(of_int \<lfloor>x\<rfloor> :: real) < of_int \<lfloor>y\<rfloor> + 2" using a fx fy by linarith
  then have 1: "\<lfloor>x\<rfloor> < \<lfloor>y\<rfloor> + 2" by linarith
  have "(of_int \<lfloor>y\<rfloor> :: real) < of_int \<lfloor>x\<rfloor> + 2" using a fx fy by linarith
  then have 2: "\<lfloor>y\<rfloor> < \<lfloor>x\<rfloor> + 2" by linarith
  show ?thesis using 1 2 by linarith
qed

lemma keeper_near:
  assumes "\<bar>s\<bar> \<le> 10000" "length issues < 256"
  shows "\<bar>spec_keeperProbability_double s issues - spec_keeperProbability s issues\<bar>
         \<le> 1 / 100 + 1 / 2 ^ 53"
proof -
  define P where "P = s / 100
             - 0.15 * real (length (filter (\<lambda>i. is_severity i = ''high'') issues))
             - 0.05 * real (length (filter (\<lambda>i. is_severity i = ''medium'') issues))"
  define p where "p = spec_probability_double s issues"
  define c where "c = max 0 (min 1 p)"
  define C where "C = max 0 (min 1 P)"
  define k where "k = \<lfloor>fl (c * 100) + 1 / 2\<rfloor>"
  define j where "j = \<lfloor>C * 100 + 1 / 2\<rfloor>"
  have pP: "\<bar>p - P\<bar> \<le> 7 / 1000" unfolding p_def P_def using assms by (rule probability_near)
  have cC: "\<bar>c - C\<bar> \<le> 7 / 1000" using pP unfolding c_def C_def by argo
  have c: "0 \<le> c" "c \<le> 1" by (simp_all add: c_def)
  then have "\<bar>c * 100\<bar> \<le> 1000" by simp
  then have q: "\<bar>fl (c * 100) - c * 100\<bar> \<le> 1 / 1000" by (rule fl_near)
  have "\<bar>(fl (c * 100) + 1 / 2) - (C * 100 + 1 / 2)\<bar> < 1" using q cC by linarith
  then have kj: "\<bar>k - j\<bar> \<le> 1" unfolding k_def j_def by (rule floor_near)
  then have "\<bar>(of_int k :: real) - of_int j\<bar> \<le> 1" by linarith
  then have kj': "\<bar>(of_int k :: real) / 100 - of_int j / 100\<bar> \<le> 1 / 100" by linarith
  have "0 \<le> fl (c * 100)" using c by (intro fl_nonneg) simp
  then have k0: "0 \<le> k" by (simp add: k_def)
  have "c * 100 \<le> of_int 100" using c by simp
  then have "fl (c * 100) \<le> of_int 100" by (intro fl_le_int) simp_all
  then have k1: "k \<le> 100" by (simp add: k_def floor_le_iff)
  have "\<bar>(of_int k :: real) / 100\<bar> \<le> 1" using k0 k1 by simp
  then have "\<bar>(of_int k :: real) / 100\<bar> / 2 ^ 53 \<le> 1 / 2 ^ 53"
    by (simp only: divide_right_mono zero_le_power zero_le_numeral)
  then have r: "\<bar>fl (of_int k / 100) - of_int k / 100\<bar> \<le> 1 / 2 ^ 53"
    using fl_err [of "of_int k / 100"] by linarith
  have d: "spec_keeperProbability_double s issues = fl (of_int k / 100)"
    by (simp add: spec_keeperProbability_double_def round2_double_def Math_round_def
        c_def p_def k_def)
  have e: "spec_keeperProbability s issues = of_int j / 100"
    by (simp add: spec_keeperProbability_def round2_def Math_round_def C_def P_def j_def)
  show ?thesis unfolding d e using r kj' by linarith
qed


lemma keeper_565: "spec_keeperProbability_double 56.5 exMedium = fl 0.51"
proof -
  have "max 0 (min 1 (2319353808095805 / 4503599627370496 :: real))
      = 2319353808095805 / 4503599627370496" by simp
  then have "spec_keeperProbability_double 56.5 exMedium = fl (51 / 100)"
    by (simp only: spec_keeperProbability_double_def probability_565 round2_double_565)
  then show ?thesis by simp
qed

lemma spec_keeper_565: "spec_keeperProbability 56.5 exMedium = 0.52"
  by (simp add: spec_keeperProbability_def round2_def Math_round_def exMedium_def)

text \<open>
  C9, as the claim states it, fails: the code computes in double arithmetic, where
  56.5 / 100 - 0.05 is 0.5149999999999999 and not 0.515. For an overall score of 56.5
  before rounding and one issue of severity 'medium', the code returns 0.51 (the double
  nearest to it), and the formula of the claim gives 0.52.
\<close>

theorem keeper_probability_counterexample:
  "calculateKeeperProbability (Fin 56.5) exMedium = Fin (fl 0.51)
   \<and> fl 0.51 = 2296835809958953 / 4503599627370496
   \<and> spec_keeperProbability 56.5 exMedium = 0.52"
proof -
  have 1: "calculateKeeperProbability (Fin 56.5) exMedium = Fin (fl 0.51)"
    by (simp only: keeper_double keeper_565)
  have 2: "fl 0.51 = 2296835809958953 / 4503599627370496" using fl_051 by simp
  show ?thesis using 1 2 spec_keeper_565 by blast
qed

text \<open>
  C9, amended. For every overall score that is a finite number, the keeper probability is
  the formula of the claim evaluated in double arithmetic: the quotient score / 100, the
  products of the two issue counts with 0.15 and 0.05, and the two differences are each
  rounded to a double; the result is clamped to [0,1] and rounded to two decimals (the code
  rounds first and clamps then, which gives the same number). It lies in [0,1] and is the
  double nearest to k / 100 for an integer k from 0 to 100. For a score of magnitude at most
  10000 and fewer than 256 issues, it differs from the exact value of the claim's formula
  by at most one hundredth and the rounding of k / 100, which is at most 2 ^ -53. For a
  score that is NaN the result is NaN.
\<close>

theorem keeper_probability_formula:
  "calculateKeeperProbability (Fin s) issues = Fin (spec_keeperProbability_double s issues)
   \<and> 0 \<le> spec_keeperProbability_double s issues
   \<and> spec_keeperProbability_double s issues \<le> 1
   \<and> (\<exists>k. 0 \<le> k \<and> k \<le> 100 \<and> spec_keeperProbability_double s issues = fl (of_int k / 100))
   \<and> (\<bar>s\<bar> \<le> 10000 \<and> length issues < 256 \<longrightarrow>
        \<bar>spec_keeperProbability_double s issues - spec_keeperProbability s issues\<bar>
          \<le> 1 / 100 + 1 / 2 ^ 53)
   \<and> calculateKeeperProbability NaN issues = NaN"
  using keeper_double [of s issues] keeper_double_range [of s issues]
    keeper_double_hundredth [of s issues] keeper_near [of s issues] keeper_nan [of issues]
  by blast

theorem keeper_probability_formula_witness:
  "\<bar>56.5\<bar> \<le> (10000::real) \<and> length exMedium < 256
   \<and> calculateKeeperProbability (Fin 56.5) exMedium = Fin (fl 0.51)
   \<and> \<bar>fl 0.51 - spec_keeperProbability 56.5 exMedium\<bar> \<le> 1 / 100 + 1 / 2 ^ 53"
proof -
  have h: "\<bar>56.5\<bar> \<le> (10000::real) \<and> length exMedium < 256" by (simp add: exMedium_def)
  note t = keeper_probability_formula [of "56.5" exMedium]
  from t have 1: "calculateKeeperProbability (Fin 56.5) exMedium
      = Fin (spec_keeperProbability_double 56.5 exMedium)" by blast
  from t h have 2: "\<bar>spec_keeperProbability_double 56.5 exMedium
      - spec_keeperProbability 56.5 exMedium\<bar> \<le> 1 / 100 + 1 / 2 ^ 53" by blast
  show ?thesis using h 1 2 unfolding keeper_565 by blast
qed


section \<open>Properties of the sharpness analyser\<close>

subsection \<open>The final sharpness score\<close>

lemma score_motion:
  "calculateSharpnessScore (Fin 30) (exBlur ''motion'' 0.9) exEdges ''top'' = Fin 64"
  by (simp add: calculateSharpnessScore_def exBlur_def exEdges_def edgeScore_def Let_def
      Math_round_def)

lemma score_none:
  "calculateSharpnessScore (Fin 30) (exBlur ''none'' 0) exEdges ''top'' = Fin 72"
  by (simp add: calculateSharpnessScore_def exBlur_def exEdges_def edgeScore_def Let_def
      Math_round_def)

text \<open>
  C7. For a fixed Laplacian variance, fixed edge statistics and a fixed focus plane, the
  final sharpness score with blur type 'soft' equals the score with blur type 'none',
  whatever the two severities are; and unless the type is 'motion' or 'defocus' with a
  severity above 0.6, the score is the score without blur, so only then a penalty is taken.
\<close>

theorem blur_penalty_only_for_motion_and_defocus:
  "(bl_type b1 = ''soft'' \<and> bl_type b2 = ''none''
      \<longrightarrow> calculateSharpnessScore s b1 e f = calculateSharpnessScore s b2 e f)
   \<and> (\<not> ((bl_type b = ''motion'' \<or> bl_type b = ''defocus'') \<and> bl_severity b > Fin 0.6)
      \<longrightarrow> calculateSharpnessScore s b e f = calculateSharpnessScore s (exBlur ''none'' 0) e f)"
  by (simp add: calculateSharpnessScore_def exBlur_def Let_def)

theorem blur_penalty_only_for_motion_and_defocus_witness:
  "calculateSharpnessScore (Fin 30) (exBlur ''soft'' 0.2) exEdges ''top'' = Fin 72
   \<and> calculateSharpnessScore (Fin 30) (exBlur ''none'' 0) exEdges ''top'' = Fin 72
   \<and> calculateSharpnessScore (Fin 30) (exBlur ''motion'' 0.5) exEdges ''top'' = Fin 72
   \<and> calculateSharpnessScore (Fin 30) (exBlur ''motion'' 0.9) exEdges ''top'' = Fin 64"
proof -
  have 1: "bl_type (exBlur ''soft'' 0.2) = ''soft'' \<and> bl_type (exBlur ''none'' 0) = ''none''"
    by (simp add: exBlur_def)
  have 2: "\<not> ((bl_type (exBlur ''motion'' 0.5) = ''motion''
               \<or> bl_type (exBlur ''motion'' 0.5) = ''defocus'')
            \<and> bl_severity (exBlur ''motion'' 0.5) > Fin 0.6)"
    by (simp add: exBlur_def)
  note t = blur_penalty_only_for_motion_and_defocus
            [of "exBlur ''soft'' 0.2" "exBlur ''none'' 0" "Fin 30" exEdges "''top''"
                "exBlur ''motion'' 0.5"]
  have a: "calculateSharpnessScore (Fin 30) (exBlur ''soft'' 0.2) exEdges ''top''
           = calculateSharpnessScore (Fin 30) (exBlur ''none'' 0) exEdges ''top''"
    using t 1 by blast
  have b: "calculateSharpnessScore (Fin 30) (exBlur ''motion'' 0.5) exEdges ''top''
           = calculateSharpnessScore (Fin 30) (exBlur ''none'' 0) exEdges ''top''"
    using t 2 by blast
  show ?thesis
    using a b score_motion score_none by simp
qed

subsection \<open>The blur classification and the random samples\<close>

lemma upt_20:
  "[0..<20] = [0, 1, 2, 3, 4, 5, 6, 7, 8, 9, 10, 11, 12, 13, 14, 15, 16, 17, 18, 19]"
  by code_simp

lemma interior_4_4: "interior 4 4 = [(1, 1), (1, 2), (2, 1), (2, 2)]"
  by code_simp

lemma interior_4_3: "interior 4 3 = [(1, 1), (1, 2)]"
  by code_simp

lemma exImage_variance: "calculateLaplacianVariance exImage 4 4 = Fin (17 / 4)"
  by (simp add: calculateLaplacianVariance_def interior_4_4 laplacianStep_def laplacianAt_def
      px_def exImage_def Let_def)

lemma exImage_hgrad: "calculateDirectionalGradient exImage 4 4 ''horizontal'' = Fin (7 / 4)"
  by (simp add: calculateDirectionalGradient_def interior_4_4 gradientAt_def
      px_def exImage_def Let_def)

lemma exImage_vgrad: "calculateDirectionalGradient exImage 4 4 ''vertical'' = Fin (7 / 4)"
  by (simp add: calculateDirectionalGradient_def interior_4_4 gradientAt_def
      px_def exImage_def Let_def)

lemma exStripes_variance: "calculateLaplacianVariance exStripes 4 3 = Fin 0"
  by (simp add: calculateLaplacianVariance_def interior_4_3 laplacianStep_def laplacianAt_def
      px_def exStripes_def Let_def)

lemma exStripes_hgrad: "calculateDirectionalGradient exStripes 4 3 ''horizontal'' = Fin 10"
  by (simp add: calculateDirectionalGradient_def interior_4_3 gradientAt_def
      px_def exStripes_def Let_def)

lemma exStripes_vgrad: "calculateDirectionalGradient exStripes 4 3 ''vertical'' = Fin 0"
  by (simp add: calculateDirectionalGradient_def interior_4_3 gradientAt_def
      px_def exStripes_def Let_def)

lemma even_draw: "(2 * i) mod 4 \<noteq> (3::nat)"
  by presburger

lemma sampleAngle_A: "sampleAngle exImage 4 4 drawsA i = Fin 0"
  by (simp add: sampleAngle_def drawsA_def Let_def pxAt_def exImage_def atan2_def)

lemma sampleAngle_B:
  "sampleAngle exImage 4 4 drawsB i = (if (2 * i + 1) mod 4 = 3 then Fin pi else Fin 0)"
  by (simp add: sampleAngle_def drawsB_def Let_def pxAt_def exImage_def atan2_def even_draw)

lemma sampleAngle_C: "sampleAngle exImage 4 4 drawsC i = Fin 0"
  by (simp add: sampleAngle_def drawsC_def Let_def pxAt_def exImage_def atan2_def)

lemma R_A: "analyzeGradientConsistency exImage 4 4 drawsA = Fin 1"
  by (simp add: analyzeGradientConsistency_def sampleAngle_A sampleCount_def upt_20 Let_def)

lemma R_B: "analyzeGradientConsistency exImage 4 4 drawsB = Fin 0"
  by (simp add: analyzeGradientConsistency_def sampleAngle_B sampleCount_def upt_20 Let_def)

lemma blur_A:
  "detectBlurType exImage 4 4 (calculateLaplacianVariance exImage 4 4) drawsA
     = \<lparr> bl_type = ''defocus'', bl_severity = Fin (143 / 160), bl_direction = None,
         bl_metrics = \<lparr> bm_horizontalGradient = Fin 2, bm_verticalGradient = Fin 2,
           bm_gradientRatio = Fin 1, bm_consistency = Fin 1, bm_avgGradient = Fin 2 \<rparr> \<rparr>"
  by (simp add: detectBlurType_def blurDecision_def exImage_variance exImage_hgrad exImage_vgrad
      R_A Let_def Math_round_def)

lemma blur_B:
  "detectBlurType exImage 4 4 (calculateLaplacianVariance exImage 4 4) drawsB
     = \<lparr> bl_type = ''soft'', bl_severity = Fin (1 / 5), bl_direction = None,
         bl_metrics = \<lparr> bm_horizontalGradient = Fin 2, bm_verticalGradient = Fin 2,
           bm_gradientRatio = Fin 1, bm_consistency = Fin 0, bm_avgGradient = Fin 2 \<rparr> \<rparr>"
  by (simp add: detectBlurType_def blurDecision_def exImage_variance exImage_hgrad exImage_vgrad
      R_B Let_def Math_round_def)

text \<open>
  C2, as the claim states it, fails: analyzeGradientConsistency takes its twenty sample
  positions from Math.random. On the 4 x 4 image \<open>exImage\<close> a run whose draws are all 0.5
  samples the pixel (2, 2) twenty times and gets R = 1; a run where every fourth draw is 0
  samples (2, 2) and (2, 1) in turn, whose gradients point in opposite directions, and gets
  R = 0. The first run reports 'defocus' of severity 0.89375, the second 'soft' of
  severity 0.2.
\<close>

theorem sharpness_runs_differ_counterexample:
  "analyzeGradientConsistency exImage 4 4 drawsA = Fin 1
   \<and> analyzeGradientConsistency exImage 4 4 drawsB = Fin 0
   \<and> bl_type (detectBlurType exImage 4 4 (calculateLaplacianVariance exImage 4 4) drawsA)
       = ''defocus''
   \<and> bl_severity (detectBlurType exImage 4 4 (calculateLaplacianVariance exImage 4 4) drawsA)
       = Fin (143 / 160)
   \<and> bl_type (detectBlurType exImage 4 4 (calculateLaplacianVariance exImage 4 4) drawsB)
       = ''soft''
   \<and> bl_severity (detectBlurType exImage 4 4 (calculateLaplacianVariance exImage 4 4) drawsB)
       = Fin (1 / 5)"
  by (simp add: R_A R_B blur_A blur_B)

lemma lt_40_80: "(s::jsnum) < Fin 40 \<Longrightarrow> s < Fin 80"
  by (cases s) simp_all

lemma blurDecision_same_side:
  "(c1 > Fin 0.9) = (c2 > Fin 0.9) \<Longrightarrow> blurDecision s gr ag c1 = blurDecision s gr ag c2"
  by (simp add: blurDecision_def)

lemma blurDecision_early:
  assumes "s > Fin 100 \<or> ag > Fin 20
           \<or> (\<bar>gr - Fin 1\<bar> > Fin 0.5 \<and> s < Fin 50 \<and> ag < Fin 15)"
  shows "blurDecision s gr ag c2 = blurDecision s gr ag c1"
  using assms unfolding blurDecision_def by (cases "s > Fin 100 \<or> ag > Fin 20") simp_all

lemma blurDecision_late:
  assumes "\<not> (s > Fin 100 \<or> ag > Fin 20)"
    and "\<not> (\<bar>gr - Fin 1\<bar> > Fin 0.5 \<and> s < Fin 50 \<and> ag < Fin 15)"
  shows "fst (blurDecision s gr ag c) =
           (if s < Fin 40 \<and> c > Fin 0.9 \<and> ag < Fin 12 then ''defocus''
            else if s < Fin 80 then ''soft'' else ''none'')"
  unfolding blurDecision_def by (simp only: assms if_False) simp

lemma blurDecision_late_full:
  assumes "\<not> (s > Fin 100 \<or> ag > Fin 20)"
    and "\<not> (\<bar>gr - Fin 1\<bar> > Fin 0.5 \<and> s < Fin 50 \<and> ag < Fin 15)"
    and "\<not> s < Fin 40"
  shows "blurDecision s gr ag c =
           (if s < Fin 80 then (''soft'', Fin 0.2, None) else (''none'', Fin 0, None))"
  unfolding blurDecision_def by (simp only: assms if_False simp_thms)

lemma blurDecision_none_motion:
  assumes "fst (blurDecision s gr ag c1) = ''none'' \<or> fst (blurDecision s gr ag c1) = ''motion''"
  shows "blurDecision s gr ag c2 = blurDecision s gr ag c1"
proof (cases "s > Fin 100 \<or> ag > Fin 20
           \<or> (\<bar>gr - Fin 1\<bar> > Fin 0.5 \<and> s < Fin 50 \<and> ag < Fin 15)")
  case True
  then show ?thesis by (rule blurDecision_early)
next
  case False
  then have n: "\<not> (s > Fin 100 \<or> ag > Fin 20)"
    "\<not> (\<bar>gr - Fin 1\<bar> > Fin 0.5 \<and> s < Fin 50 \<and> ag < Fin 15)"
    by blast+
  have 80: "\<not> s < Fin 80"
  proof
    assume "s < Fin 80"
    then have "fst (blurDecision s gr ag c1) = ''defocus''
               \<or> fst (blurDecision s gr ag c1) = ''soft''"
      unfolding blurDecision_late [OF n] by simp
    with assms show False by auto
  qed
  then have 40: "\<not> s < Fin 40" using lt_40_80 by blast
  show ?thesis by (simp only: blurDecision_late_full [OF n 40])
qed

lemma blurDecision_defocus_soft:
  assumes "fst (blurDecision s gr ag c1) = ''defocus'' \<or> fst (blurDecision s gr ag c1) = ''soft''"
  shows "fst (blurDecision s gr ag c2) = ''defocus'' \<or> fst (blurDecision s gr ag c2) = ''soft''"
proof (cases "s > Fin 100 \<or> ag > Fin 20
           \<or> (\<bar>gr - Fin 1\<bar> > Fin 0.5 \<and> s < Fin 50 \<and> ag < Fin 15)")
  case True
  then show ?thesis using assms blurDecision_early [of s ag gr c2 c1] by simp
next
  case False
  then have n: "\<not> (s > Fin 100 \<or> ag > Fin 20)"
    "\<not> (\<bar>gr - Fin 1\<bar> > Fin 0.5 \<and> s < Fin 50 \<and> ag < Fin 15)"
    by blast+
  have 80: "s < Fin 80"
  proof (rule ccontr)
    assume c: "\<not> s < Fin 80"
    then have "\<not> s < Fin 40" using lt_40_80 by blast
    with c have "fst (blurDecision s gr ag c1) = ''none''"
      unfolding blurDecision_late [OF n] by simp
    with assms show False by auto
  qed
  show ?thesis unfolding blurDecision_late [OF n] using 80 by simp
qed

lemma samePositions_consistency:
  assumes "samePositions w h r1 r2"
  shows "analyzeGradientConsistency d w h r1 = analyzeGradientConsistency d w h r2"
proof -
  have "map (sampleAngle d w h r1) [0..<sampleCount]
        = map (sampleAngle d w h r2) [0..<sampleCount]"
    using assms
    by (intro map_cong refl) (simp add: samePositions_def list_all_iff sampleAngle_def)
  then show ?thesis by (simp only: analyzeGradientConsistency_def)
qed

lemma detectBlurType_verdict:
  "blurVerdict (detectBlurType d w h s r) =
     (case blurDecision s (gradientRatioOf d w h) (avgGradientOf d w h)
             (analyzeGradientConsistency d w h r) of
      (t, sev, dir) \<Rightarrow> (t, Math_min (Fin 1) (Math_max (Fin 0) sev), dir))"
  unfolding detectBlurType_def blurVerdict_def Let_def gradientRatioOf_def avgGradientOf_def
  by (cases "blurDecision s
        (calculateDirectionalGradient d w h ''horizontal''
           / jsor (calculateDirectionalGradient d w h ''vertical'') (Fin 1))
        ((calculateDirectionalGradient d w h ''horizontal''
           + calculateDirectionalGradient d w h ''vertical'') / Fin 2)
        (analyzeGradientConsistency d w h r)") (simp only: prod.case blurAnalysis.simps)

lemma detectBlurType_type:
  "bl_type (detectBlurType d w h s r) =
     fst (blurDecision s (gradientRatioOf d w h) (avgGradientOf d w h)
            (analyzeGradientConsistency d w h r))"
  using detectBlurType_verdict [of d w h s r]
  by (cases "blurDecision s (gradientRatioOf d w h) (avgGradientOf d w h)
            (analyzeGradientConsistency d w h r)") (simp add: blurVerdict_def)

lemma exSoft_variance: "calculateLaplacianVariance exSoft 4 4 = Fin 68"
  by (simp add: calculateLaplacianVariance_def interior_4_4 laplacianStep_def laplacianAt_def
      px_def exSoft_def Let_def)

lemma exSoft_hgrad: "calculateDirectionalGradient exSoft 4 4 ''horizontal'' = Fin 7"
  by (simp add: calculateDirectionalGradient_def interior_4_4 gradientAt_def
      px_def exSoft_def Let_def)

lemma exSoft_vgrad: "calculateDirectionalGradient exSoft 4 4 ''vertical'' = Fin 7"
  by (simp add: calculateDirectionalGradient_def interior_4_4 gradientAt_def
      px_def exSoft_def Let_def)

lemma sampleAngle_soft_A: "sampleAngle exSoft 4 4 drawsA i = Fin 0"
  by (simp add: sampleAngle_def drawsA_def Let_def pxAt_def exSoft_def atan2_def)

lemma sampleAngle_soft_B:
  "sampleAngle exSoft 4 4 drawsB i = (if (2 * i + 1) mod 4 = 3 then Fin pi else Fin 0)"
  by (simp add: sampleAngle_def drawsB_def Let_def pxAt_def exSoft_def atan2_def even_draw)

lemma R_soft_A: "analyzeGradientConsistency exSoft 4 4 drawsA = Fin 1"
  by (simp add: analyzeGradientConsistency_def sampleAngle_soft_A sampleCount_def upt_20 Let_def)

lemma R_soft_B: "analyzeGradientConsistency exSoft 4 4 drawsB = Fin 0"
  by (simp add: analyzeGradientConsistency_def sampleAngle_soft_B sampleCount_def upt_20 Let_def)

lemma blur_soft:
  "blurVerdict (detectBlurType exSoft 4 4 (calculateLaplacianVariance exSoft 4 4) drawsA)
     = (''soft'', Fin (1 / 5), None)"
  "blurVerdict (detectBlurType exSoft 4 4 (calculateLaplacianVariance exSoft 4 4) drawsB)
     = (''soft'', Fin (1 / 5), None)"
  by (simp_all add: blurVerdict_def detectBlurType_def blurDecision_def exSoft_variance
      exSoft_hgrad exSoft_vgrad R_soft_A R_soft_B Let_def)

lemma blurDecision_two_runs:
  "blurDecision s gr ag c1 = blurDecision s gr ag c2
   \<or> (fst (blurDecision s gr ag c1) = ''defocus'' \<and> fst (blurDecision s gr ag c2) = ''soft'')
   \<or> (fst (blurDecision s gr ag c1) = ''soft'' \<and> fst (blurDecision s gr ag c2) = ''defocus'')"
proof (cases "s > Fin 100 \<or> ag > Fin 20
           \<or> (\<bar>gr - Fin 1\<bar> > Fin 0.5 \<and> s < Fin 50 \<and> ag < Fin 15)")
  case True
  then have "blurDecision s gr ag c1 = blurDecision s gr ag c2" by (rule blurDecision_early)
  then show ?thesis by blast
next
  case False
  then have n: "\<not> (s > Fin 100 \<or> ag > Fin 20)"
    "\<not> (\<bar>gr - Fin 1\<bar> > Fin 0.5 \<and> s < Fin 50 \<and> ag < Fin 15)"
    by blast+
  show ?thesis
  proof (cases "(c1 > Fin 0.9) = (c2 > Fin 0.9)")
    case True
    then have "blurDecision s gr ag c1 = blurDecision s gr ag c2" by (rule blurDecision_same_side)
    then show ?thesis by blast
  next
    case side: False
    show ?thesis
    proof (cases "s < Fin 40")
      case True
      then have 80: "s < Fin 80" by (rule lt_40_80)
      show ?thesis
      proof (cases "ag < Fin 12")
        case ag: True
        show ?thesis
        proof (cases "c1 > Fin 0.9")
          case c: True
          then have "\<not> c2 > Fin 0.9" using side by blast
          then show ?thesis unfolding blurDecision_late [OF n] using True 80 ag c by simp
        next
          case c: False
          then have "c2 > Fin 0.9" using side by blast
          then show ?thesis unfolding blurDecision_late [OF n] using True 80 ag c by simp
        qed
      next
        case ag: False
        have "blurDecision s gr ag c1 = (''soft'', Fin 0.2, None)"
          "blurDecision s gr ag c2 = (''soft'', Fin 0.2, None)"
          unfolding blurDecision_def using n ag 80 by (simp_all only: if_False if_True simp_thms)
        then show ?thesis by simp
      qed
    next
      case False
      have "blurDecision s gr ag c1 = blurDecision s gr ag c2"
        by (simp only: blurDecision_late_full [OF n False])
      then show ?thesis by blast
    qed
  qed
qed


text \<open>
  C2, amended. The Laplacian variance, the directional gradients and the edge statistics
  are functions of the buffer alone. The consistency measure R is a function of the buffer
  and of the twenty sample positions that the run draws: two runs that draw the same
  positions return the same blur analysis. For any two runs on the same buffer, the blur
  type, severity and direction are the same whenever the two values of R lie on the same
  side of 0.9, and whenever one run reports 'none' or 'motion'; when one run reports
  'defocus' or 'soft', the other reports 'defocus' or 'soft'. Two runs either agree in type,
  severity and direction, or one reports 'defocus' and the other 'soft'; they can agree with
  R on different sides of 0.9, as on the image \<open>exSoft\<close>, where both report 'soft'.
\<close>

theorem blur_verdict_depends_on_draws_through_R:
  "(samePositions w h r1 r2 \<longrightarrow> detectBlurType d w h s r1 = detectBlurType d w h s r2)
   \<and> ((analyzeGradientConsistency d w h r1 > Fin 0.9)
        = (analyzeGradientConsistency d w h r2 > Fin 0.9)
      \<longrightarrow> blurVerdict (detectBlurType d w h s r1) = blurVerdict (detectBlurType d w h s r2))
   \<and> (bl_type (detectBlurType d w h s r1) = ''none''
        \<or> bl_type (detectBlurType d w h s r1) = ''motion''
      \<longrightarrow> blurVerdict (detectBlurType d w h s r1) = blurVerdict (detectBlurType d w h s r2))
   \<and> (bl_type (detectBlurType d w h s r1) = ''defocus''
        \<or> bl_type (detectBlurType d w h s r1) = ''soft''
      \<longrightarrow> bl_type (detectBlurType d w h s r2) = ''defocus''
          \<or> bl_type (detectBlurType d w h s r2) = ''soft'')
   \<and> (blurVerdict (detectBlurType d w h s r1) = blurVerdict (detectBlurType d w h s r2)
      \<or> (bl_type (detectBlurType d w h s r1) = ''defocus''
          \<and> bl_type (detectBlurType d w h s r2) = ''soft'')
      \<or> (bl_type (detectBlurType d w h s r1) = ''soft''
          \<and> bl_type (detectBlurType d w h s r2) = ''defocus''))"
proof (intro conjI impI)
  assume "samePositions w h r1 r2"
  then have "analyzeGradientConsistency d w h r1 = analyzeGradientConsistency d w h r2"
    by (rule samePositions_consistency)
  then show "detectBlurType d w h s r1 = detectBlurType d w h s r2"
    by (simp only: detectBlurType_def)
next
  assume "(analyzeGradientConsistency d w h r1 > Fin 0.9)
        = (analyzeGradientConsistency d w h r2 > Fin 0.9)"
  then have "blurDecision s (gradientRatioOf d w h) (avgGradientOf d w h)
               (analyzeGradientConsistency d w h r1)
           = blurDecision s (gradientRatioOf d w h) (avgGradientOf d w h)
               (analyzeGradientConsistency d w h r2)"
    by (rule blurDecision_same_side)
  then show "blurVerdict (detectBlurType d w h s r1) = blurVerdict (detectBlurType d w h s r2)"
    by (simp only: detectBlurType_verdict)
next
  assume a: "bl_type (detectBlurType d w h s r1) = ''none''
        \<or> bl_type (detectBlurType d w h s r1) = ''motion''"
  have e: "blurDecision s (gradientRatioOf d w h) (avgGradientOf d w h)
               (analyzeGradientConsistency d w h r2)
           = blurDecision s (gradientRatioOf d w h) (avgGradientOf d w h)
               (analyzeGradientConsistency d w h r1)"
    by (rule blurDecision_none_motion [OF a [unfolded detectBlurType_type]])
  show "blurVerdict (detectBlurType d w h s r1) = blurVerdict (detectBlurType d w h s r2)"
    by (simp only: detectBlurType_verdict e)
next
  assume a: "bl_type (detectBlurType d w h s r1) = ''defocus''
        \<or> bl_type (detectBlurType d w h s r1) = ''soft''"
  show "bl_type (detectBlurType d w h s r2) = ''defocus''
          \<or> bl_type (detectBlurType d w h s r2) = ''soft''"
    unfolding detectBlurType_type
    by (rule blurDecision_defocus_soft [OF a [unfolded detectBlurType_type]])
next
  note two = blurDecision_two_runs [of s "gradientRatioOf d w h" "avgGradientOf d w h"
      "analyzeGradientConsistency d w h r1" "analyzeGradientConsistency d w h r2"]
  have "blurDecision s (gradientRatioOf d w h) (avgGradientOf d w h)
               (analyzeGradientConsistency d w h r1)
           = blurDecision s (gradientRatioOf d w h) (avgGradientOf d w h)
               (analyzeGradientConsistency d w h r2)
        \<Longrightarrow> blurVerdict (detectBlurType d w h s r1) = blurVerdict (detectBlurType d w h s r2)"
    by (simp only: detectBlurType_verdict)
  then show "blurVerdict (detectBlurType d w h s r1) = blurVerdict (detectBlurType d w h s r2)
      \<or> (bl_type (detectBlurType d w h s r1) = ''defocus''
          \<and> bl_type (detectBlurType d w h s r2) = ''soft'')
      \<or> (bl_type (detectBlurType d w h s r1) = ''soft''
          \<and> bl_type (detectBlurType d w h s r2) = ''defocus'')"
    unfolding detectBlurType_type using two by blast
qed


lemma samePositions_A_C: "samePositions 4 4 drawsA drawsC"
  by (simp add: samePositions_def list_all_iff drawsA_def drawsC_def)

lemma blur_stripes:
  "blurVerdict (detectBlurType exStripes 4 3 (calculateLaplacianVariance exStripes 4 3) r)
     = (''motion'', Fin 1, Some ''horizontal'')"
  by (simp add: blurVerdict_def detectBlurType_def blurDecision_def exStripes_variance
      exStripes_hgrad exStripes_vgrad Let_def)

theorem blur_verdict_depends_on_draws_through_R_witness:
  "samePositions 4 4 drawsA drawsC
   \<and> detectBlurType exImage 4 4 (calculateLaplacianVariance exImage 4 4) drawsA
       = detectBlurType exImage 4 4 (calculateLaplacianVariance exImage 4 4) drawsC
   \<and> bl_type (detectBlurType exStripes 4 3 (calculateLaplacianVariance exStripes 4 3) drawsA)
       = ''motion''
   \<and> blurVerdict (detectBlurType exStripes 4 3 (calculateLaplacianVariance exStripes 4 3) drawsA)
       = blurVerdict (detectBlurType exStripes 4 3 (calculateLaplacianVariance exStripes 4 3) drawsB)
   \<and> bl_type (detectBlurType exImage 4 4 (calculateLaplacianVariance exImage 4 4) drawsA)
       = ''defocus''
   \<and> blurVerdict (detectBlurType exImage 4 4 (calculateLaplacianVariance exImage 4 4) drawsA)
       \<noteq> blurVerdict (detectBlurType exImage 4 4 (calculateLaplacianVariance exImage 4 4) drawsB)
   \<and> bl_type (detectBlurType exImage 4 4 (calculateLaplacianVariance exImage 4 4) drawsB)
       = ''soft''
   \<and> analyzeGradientConsistency exSoft 4 4 drawsA = Fin 1
   \<and> analyzeGradientConsistency exSoft 4 4 drawsB = Fin 0
   \<and> blurVerdict (detectBlurType exSoft 4 4 (calculateLaplacianVariance exSoft 4 4) drawsA)
       = blurVerdict (detectBlurType exSoft 4 4 (calculateLaplacianVariance exSoft 4 4) drawsB)"
proof -
  note t1 = blur_verdict_depends_on_draws_through_R
              [of 4 4 drawsA drawsC exImage "calculateLaplacianVariance exImage 4 4"]
  note t2 = blur_verdict_depends_on_draws_through_R
              [of 4 3 drawsA drawsB exStripes "calculateLaplacianVariance exStripes 4 3"]
  note t3 = blur_verdict_depends_on_draws_through_R
              [of 4 4 drawsA drawsB exImage "calculateLaplacianVariance exImage 4 4"]
  have m: "bl_type (detectBlurType exStripes 4 3 (calculateLaplacianVariance exStripes 4 3) drawsA)
       = ''motion''"
    using blur_stripes [of drawsA] by (simp add: blurVerdict_def)
  have d: "bl_type (detectBlurType exImage 4 4 (calculateLaplacianVariance exImage 4 4) drawsA)
       = ''defocus''"
    by (simp add: blur_A)
  have ne: "blurVerdict (detectBlurType exImage 4 4 (calculateLaplacianVariance exImage 4 4) drawsA)
       \<noteq> blurVerdict (detectBlurType exImage 4 4 (calculateLaplacianVariance exImage 4 4) drawsB)"
    by (simp add: blurVerdict_def blur_A blur_B)
  have 1: "detectBlurType exImage 4 4 (calculateLaplacianVariance exImage 4 4) drawsA
       = detectBlurType exImage 4 4 (calculateLaplacianVariance exImage 4 4) drawsC"
    using t1 samePositions_A_C by blast
  have 2: "blurVerdict (detectBlurType exStripes 4 3 (calculateLaplacianVariance exStripes 4 3) drawsA)
       = blurVerdict (detectBlurType exStripes 4 3 (calculateLaplacianVariance exStripes 4 3) drawsB)"
    using t2 m by blast
  have ds: "''defocus'' \<noteq> ''soft''" by simp
  have 3: "bl_type (detectBlurType exImage 4 4 (calculateLaplacianVariance exImage 4 4) drawsB)
         = ''soft''"
    using t3 d ne ds by metis
  have 4: "blurVerdict (detectBlurType exSoft 4 4 (calculateLaplacianVariance exSoft 4 4) drawsA)
       = blurVerdict (detectBlurType exSoft 4 4 (calculateLaplacianVariance exSoft 4 4) drawsB)"
    by (simp only: blur_soft)
  show ?thesis using samePositions_A_C 1 m 2 d ne 3 R_soft_A R_soft_B 4 by blast
qed

section \<open>Properties of the histogram analyser\<close>

























section \<open>Properties of the analysers on uniform buffers\<close>

lemma index_in_range:
  assumes "y < h" "x < w"
  shows "y * w + x < w * (h::nat)"
proof -
  have "y * w + x < y * w + w" using assms by simp
  also have "\<dots> = (y + 1) * w" by simp
  also have "\<dots> \<le> h * w" using assms by (intro mult_le_mono1) simp
  finally show ?thesis by (simp add: mult.commute)
qed

lemma px_uniform: "i < w * h \<Longrightarrow> px (uniform w h v) i = int v"
  by (simp add: px_def uniform_def)

lemma set_interior:
  "p \<in> set (interior w h) \<longleftrightarrow> 1 \<le> fst p \<and> fst p + 1 < h \<and> 1 \<le> snd p \<and> snd p + 1 < w"
  by (cases p) (auto simp: interior_def)

lemma length_interior: "length (interior w h) = (h - 2) * (w - 2)"
  by (simp add: interior_def eval_nat_numeral)

lemma interior_reads:
  assumes "p \<in> set (interior w h)"
  shows "fst p * w + snd p + w + 1 < w * h" and "w + 1 \<le> fst p * w + snd p"
proof -
  from assms have b: "1 \<le> fst p" "fst p + 1 < h" "1 \<le> snd p" "snd p + 1 < w"
    by (simp_all add: set_interior)
  have "(fst p + 1) * w + (snd p + 1) < w * h"
    using b by (intro index_in_range) simp_all
  then show "fst p * w + snd p + w + 1 < w * h" by (simp add: algebra_simps)
  have "w \<le> fst p * w" using b by (cases "fst p") simp_all
  then show "w + 1 \<le> fst p * w + snd p" using b by linarith
qed

lemma laplacian_uniform:
  assumes "p \<in> set (interior w h)"
  shows "laplacianAt (uniform w h v) w p = 0"
proof -
  note r = interior_reads [OF assms]
  obtain y x where p: "p = (y, x)" by (cases p)
  have "px (uniform w h v) (y * w + x - w) = int v"
       "px (uniform w h v) (y * w + x - 1) = int v"
       "px (uniform w h v) (y * w + x) = int v"
       "px (uniform w h v) (y * w + x + 1) = int v"
       "px (uniform w h v) (y * w + x + w) = int v"
    using r by (simp_all add: p px_uniform)
  then show ?thesis by (simp add: laplacianAt_def p Let_def)
qed

lemma fold_laplacian_zero:
  assumes "\<And>p. p \<in> set ps \<Longrightarrow> laplacianAt d w p = 0"
  shows "fold (laplacianStep d w) ps (s, q, c) = (s, q, c + length ps)"
  using assms
  by (induction ps arbitrary: c) (simp_all add: laplacianStep_def Let_def)

lemma variance_uniform:
  assumes "3 \<le> w" "3 \<le> h"
  shows "calculateLaplacianVariance (uniform w h v) w h = Fin 0"
proof -
  have n: "(h - 2) * (w - 2) \<noteq> 0" using assms by simp
  have f: "fold (laplacianStep (uniform w h v) w) (interior w h) (0, 0, 0)
           = (0, 0, (h - 2) * (w - 2))"
    using fold_laplacian_zero [of "interior w h" "uniform w h v" w 0 0 0] laplacian_uniform
    by (simp add: length_interior)
  show ?thesis using n by (simp add: calculateLaplacianVariance_def f Let_def)
qed

lemma sobel_uniform:
  assumes "p \<in> set (interior w h)"
  shows "sobelX (uniform w h v) w p = 0" and "sobelY (uniform w h v) w p = 0"
proof -
  note r = interior_reads [OF assms]
  obtain y x where p: "p = (y, x)" by (cases p)
  have e: "px (uniform w h v) (y * w + x - w - 1) = int v"
       "px (uniform w h v) (y * w + x - w) = int v"
       "px (uniform w h v) (y * w + x - w + 1) = int v"
       "px (uniform w h v) (y * w + x - 1) = int v"
       "px (uniform w h v) (y * w + x + 1) = int v"
       "px (uniform w h v) (y * w + x + w - 1) = int v"
       "px (uniform w h v) (y * w + x + w) = int v"
       "px (uniform w h v) (y * w + x + w + 1) = int v"
    using r by (simp_all add: p px_uniform)
  show "sobelX (uniform w h v) w p = 0" using e by (simp add: sobelX_def p Let_def)
  show "sobelY (uniform w h v) w p = 0" using e by (simp add: sobelY_def p Let_def)
qed

lemma fold_edges_zero:
  assumes "\<And>p. p \<in> set ps \<Longrightarrow> sobelX d w p = 0 \<and> sobelY d w p = 0"
  shows "fold (edgeStep d w) ps (e, s, k, c) = (e, s, k, c + length ps)"
  using assms
  by (induction ps arbitrary: c) (simp_all add: edgeStep_def Let_def)

lemma edges_uniform:
  assumes "3 \<le> w" "3 \<le> h"
  shows "ed_averageStrength (analyzeEdges (uniform w h v) w h) = Fin 0"
proof -
  have n: "(h - 2) * (w - 2) \<noteq> 0" using assms by simp
  have f: "fold (edgeStep (uniform w h v) w) (interior w h) (0, 0, 0, 0)
           = (0, 0, 0, (h - 2) * (w - 2))"
    using fold_edges_zero [of "interior w h" "uniform w h v" w 0 0 0 0] sobel_uniform
    by (simp add: length_interior)
  show ?thesis using n by (simp add: analyzeEdges_def f Let_def Math_round_def)
qed

lemma fold_quadrant:
  assumes "\<And>p. p \<in> set ps \<Longrightarrow> px d (fst p * w + snd p) = v"
  shows "fold (\<lambda>p (weight, count). (weight + px d (fst p * w + snd p), count + 1)) ps (a, c)
         = (a + v * int (length ps), c + length ps)"
  using assms
  by (induction ps arbitrary: a c) (simp_all add: algebra_simps)

lemma quadrant_uniform:
  assumes "x2 \<le> w" "y2 \<le> h"
  shows "calculateQuadrantWeight (uniform w h v) w x1 y1 x2 y2
         = (if x1 < x2 \<and> y1 < y2 then real v else 0)"
proof -
  have r: "\<And>p. p \<in> set (List.product [y1..<y2] [x1..<x2])
             \<Longrightarrow> px (uniform w h v) (fst p * w + snd p) = int v"
  proof -
    fix p assume "p \<in> set (List.product [y1..<y2] [x1..<x2])"
    then have "fst p < h" "snd p < w" using assms by auto
    then show "px (uniform w h v) (fst p * w + snd p) = int v"
      by (intro px_uniform index_in_range)
  qed
  have f: "fold (\<lambda>p (weight, count). (weight + px (uniform w h v) (fst p * w + snd p), count + 1))
             (List.product [y1..<y2] [x1..<x2]) (0, 0)
           = (int v * int ((y2 - y1) * (x2 - x1)), (y2 - y1) * (x2 - x1))"
    using fold_quadrant [of "List.product [y1..<y2] [x1..<x2]" "uniform w h v" w "int v" 0 0] r
    by simp
  show ?thesis
    unfolding calculateQuadrantWeight_def f by simp
qed

lemma balance_uniform:
  assumes "2 \<le> w" "2 \<le> h" "1 \<le> v"
  shows "ba_type (analyzeVisualBalance (uniform w h v) w h) = ''symmetrical''"
proof -
  have m: "0 < w div 2" "w div 2 < w" "0 < h div 2" "h div 2 < h" using assms by simp_all
  have q: "calculateQuadrantWeight (uniform w h v) w 0 0 (w div 2) (h div 2) = real v"
    "calculateQuadrantWeight (uniform w h v) w (w div 2) 0 w (h div 2) = real v"
    "calculateQuadrantWeight (uniform w h v) w 0 (h div 2) (w div 2) h = real v"
    "calculateQuadrantWeight (uniform w h v) w (w div 2) (h div 2) w h = real v"
    using m by (simp_all add: quadrant_uniform)
  show ?thesis using assms by (simp add: analyzeVisualBalance_def q Let_def)
qed

lemma fold_hsym_zero:
  assumes "\<And>p. p \<in> set ps \<Longrightarrow> px d (fst p * w + snd p) = px d (fst p * w + (w - 1 - snd p))"
  shows "fold (horizontalSymStep d w) ps (a, c) = (a, c + length ps)"
  using assms
  by (induction ps arbitrary: c) (simp_all add: horizontalSymStep_def Let_def)

lemma fold_vsym_zero:
  assumes "\<And>p. p \<in> set ps \<Longrightarrow> px d (fst p * w + snd p) = px d ((h - 1 - fst p) * w + snd p)"
  shows "fold (verticalSymStep d w h) ps (a, c) = (a, c + length ps)"
  using assms
  by (induction ps arbitrary: c) (simp_all add: verticalSymStep_def Let_def)

lemma symmetry_uniform:
  assumes "1 \<le> w" "1 \<le> h"
  shows "sy_overall (analyzeSymmetry (uniform w h v) w h) = Fin 100"
proof -
  have hs: "\<And>p. p \<in> set (List.product [0..<h] [0..<(w + 1) div 2])
      \<Longrightarrow> px (uniform w h v) (fst p * w + snd p)
          = px (uniform w h v) (fst p * w + (w - 1 - snd p))"
  proof -
    fix p assume "p \<in> set (List.product [0..<h] [0..<(w + 1) div 2])"
    then have b: "fst p < h" "snd p < w" "w - 1 - snd p < w" using assms by auto
    have i1: "fst p * w + snd p < w * h" using b by (intro index_in_range)
    have i2: "fst p * w + (w - 1 - snd p) < w * h" using b by (intro index_in_range)
    show "px (uniform w h v) (fst p * w + snd p)
          = px (uniform w h v) (fst p * w + (w - 1 - snd p))"
      by (simp only: px_uniform [OF i1] px_uniform [OF i2])
  qed
  have vs: "\<And>p. p \<in> set (List.product [0..<(h + 1) div 2] [0..<w])
      \<Longrightarrow> px (uniform w h v) (fst p * w + snd p)
          = px (uniform w h v) ((h - 1 - fst p) * w + snd p)"
  proof -
    fix p assume "p \<in> set (List.product [0..<(h + 1) div 2] [0..<w])"
    then have b: "fst p < h" "snd p < w" "h - 1 - fst p < h" using assms by auto
    have i1: "fst p * w + snd p < w * h" using b by (intro index_in_range)
    have i2: "(h - 1 - fst p) * w + snd p < w * h" using b by (intro index_in_range)
    show "px (uniform w h v) (fst p * w + snd p)
          = px (uniform w h v) ((h - 1 - fst p) * w + snd p)"
      by (simp only: px_uniform [OF i1] px_uniform [OF i2])
  qed
  have f1: "fold (horizontalSymStep (uniform w h v) w)
              (List.product [0..<h] [0..<(w + 1) div 2]) (0, 0)
            = (0, h * ((w + 1) div 2))"
    using fold_hsym_zero [of "List.product [0..<h] [0..<(w + 1) div 2]" "uniform w h v" w 0 0] hs
    by simp
  have f2: "fold (verticalSymStep (uniform w h v) w h)
              (List.product [0..<(h + 1) div 2] [0..<w]) (0, 0)
            = (0, ((h + 1) div 2) * w)"
    using fold_vsym_zero [of "List.product [0..<(h + 1) div 2] [0..<w]" "uniform w h v" w h 0 0] vs
    by simp
  have n: "h * ((w + 1) div 2) \<noteq> 0" "((h + 1) div 2) * w \<noteq> 0" using assms by simp_all
  show ?thesis
    unfolding analyzeSymmetry_def f1 f2 prod.case Let_def
    using n by (simp add: Math_round_def)
qed

lemma contrast_uniform:
  assumes "fst p + 1 < h" "snd p + 1 < w"
  shows "contrastAt (uniform w h v) w p = 0"
proof -
  obtain y x where p: "p = (y, x)" by (cases p)
  have "(y + 1) * w + (x + 1) < w * h" using assms by (intro index_in_range) (simp_all add: p)
  then have "y * w + x + w + 1 < w * h" by (simp add: algebra_simps)
  then have "px (uniform w h v) (y * w + x) = int v"
       "px (uniform w h v) (y * w + x + 1) = int v"
       "px (uniform w h v) (y * w + x + w) = int v"
    by (simp_all add: px_uniform)
  then show ?thesis by (simp add: contrastAt_def p Let_def)
qed

lemma fold_block_zero:
  assumes "\<And>p. p \<in> set ps \<Longrightarrow> contrastAt d w p = 0"
  shows "fold (blockStep d w) ps (0, a, b) = (0, a, b)"
  using assms by (induction ps) (simp_all add: blockStep_def Let_def)

lemma blockScan_uniform: "blockScan (uniform w h v) w h (by, bx) = (0, bx, by)"
proof -
  have c: "\<And>p. p \<in> set (List.product [by..<min (by + blockSize) (h - 1)]
                                     [bx..<min (bx + blockSize) (w - 1)])
         \<Longrightarrow> contrastAt (uniform w h v) w p = 0"
    by (rule contrast_uniform) auto
  show ?thesis unfolding blockScan_def prod.case by (rule fold_block_zero) (rule c)
qed

lemma concat_map_empty: "concat (map (\<lambda>b. []) xs) = []"
  by (induction xs) simp_all

lemma interestPoints_uniform: "findInterestPoints (uniform w h v) w h 50 = []"
proof -
  have "\<And>b. (case blockScan (uniform w h v) w h b of
               (maxContrast, maxX, maxY) \<Rightarrow>
                 if maxContrast > 50
                 then [\<lparr>ip_x = maxX, ip_y = maxY, ip_strength = maxContrast\<rparr>]
                 else []) = []"
  proof -
    fix b :: "nat \<times> nat"
    obtain y x where b: "b = (y, x)" by (cases b)
    show "(case blockScan (uniform w h v) w h b of
               (maxContrast, maxX, maxY) \<Rightarrow>
                 if maxContrast > 50
                 then [\<lparr>ip_x = maxX, ip_y = maxY, ip_strength = maxContrast\<rparr>]
                 else []) = []"
      by (simp add: b blockScan_uniform)
  qed
  then show ?thesis by (simp add: findInterestPoints_def concat_map_empty)
qed

lemma thirds_uniform:
  "rt_alignment (analyzeRuleOfThirds (uniform w h v) w h) = Fin 0
   \<and> rt_interestPointCount (analyzeRuleOfThirds (uniform w h v) w h) = 0"
  by (simp add: analyzeRuleOfThirds_def interestPoints_uniform Let_def Math_round_def)

lemma fold_mass_zero:
  assumes "\<And>p. p \<in> set ps \<Longrightarrow> px d (fst p * w + snd p) = 0"
  shows "fold (massStep d w) ps (a, b, c) = (a, b, c)"
  using assms by (induction ps) (simp_all add: massStep_def Let_def)

lemma mass_black:
  "fold (massStep (uniform w h 0) w) (List.product [0..<h] [0..<w]) (0, 0, 0) = (0, 0, 0)"
proof (rule fold_mass_zero)
  fix p assume "p \<in> set (List.product [0..<h] [0..<w])"
  then have "fst p < h" "snd p < w" by auto
  then have "fst p * w + snd p < w * h" by (intro index_in_range)
  then show "px (uniform w h 0) (fst p * w + snd p) = 0" by (simp add: px_uniform)
qed

lemma weight_black:
  "wd_centerOfMassX (analyzeWeightDistribution (uniform w h 0) w h) = NaN
   \<and> wd_centerOfMassY (analyzeWeightDistribution (uniform w h 0) w h) = NaN
   \<and> wd_offsetX (analyzeWeightDistribution (uniform w h 0) w h) = NaN
   \<and> wd_offsetY (analyzeWeightDistribution (uniform w h 0) w h) = NaN"
  unfolding analyzeWeightDistribution_def mass_black prod.case Let_def by simp

lemma balance_black:
  "ba_horizontal (analyzeVisualBalance (uniform w h 0) w h) = NaN
   \<and> ba_vertical (analyzeVisualBalance (uniform w h 0) w h) = NaN
   \<and> ba_overall (analyzeVisualBalance (uniform w h 0) w h) = NaN
   \<and> ba_type (analyzeVisualBalance (uniform w h 0) w h) = ''asymmetrical''"
proof -
  have q: "calculateQuadrantWeight (uniform w h 0) w 0 0 (w div 2) (h div 2) = 0"
    "calculateQuadrantWeight (uniform w h 0) w (w div 2) 0 w (h div 2) = 0"
    "calculateQuadrantWeight (uniform w h 0) w 0 (h div 2) (w div 2) h = 0"
    "calculateQuadrantWeight (uniform w h 0) w (w div 2) (h div 2) w h = 0"
    by (simp_all add: quadrant_uniform)
  show ?thesis unfolding analyzeVisualBalance_def q Let_def by simp
qed

lemma product_Nil2: "List.product xs [] = []"
  by (induction xs) simp_all

lemma interior_narrow: "interior 2 h = []"
  by (simp add: interior_def product_Nil2)

lemma variance_narrow: "calculateLaplacianVariance d 2 h = NaN"
  by (simp add: calculateLaplacianVariance_def interior_narrow Let_def)

lemma edges_narrow: "ed_averageStrength (analyzeEdges d 2 h) = NaN"
  by (simp add: analyzeEdges_def interior_narrow Let_def)

lemma wellFormed_uniform: "wellFormed (uniform w h v) w h \<longleftrightarrow> 0 < w \<and> 0 < h \<and> v < 256"
  by (auto simp: wellFormed_def uniform_def list_all_iff)

text \<open>
  C1. The code does not keep the special values out of its results. On the black image of
  4 x 4 pixels, a well-formed buffer, analyzeWeightDistribution divides by the total weight 0:
  the centre of mass and its offsets are NaN; analyzeVisualBalance divides by the sum of the
  quadrant weights, which is 0: the horizontal, vertical and overall balance are NaN. On a
  buffer 2 pixels wide no pixel is interior, calculateLaplacianVariance and analyzeEdges
  divide by the count 0, and the variance and the average edge strength are NaN. Other
  divisions of the same files are guarded (calculateQuadrantWeight tests its count,
  detectBlurType and detectLeadingLines substitute 1 for a zero denominator).
\<close>

theorem nan_reaches_the_results:
  "wellFormed (uniform 4 4 0) 4 4
   \<and> wd_centerOfMassX (analyzeWeightDistribution (uniform 4 4 0) 4 4) = NaN
   \<and> wd_centerOfMassY (analyzeWeightDistribution (uniform 4 4 0) 4 4) = NaN
   \<and> wd_offsetX (analyzeWeightDistribution (uniform 4 4 0) 4 4) = NaN
   \<and> wd_offsetY (analyzeWeightDistribution (uniform 4 4 0) 4 4) = NaN
   \<and> ba_horizontal (analyzeVisualBalance (uniform 4 4 0) 4 4) = NaN
   \<and> ba_vertical (analyzeVisualBalance (uniform 4 4 0) 4 4) = NaN
   \<and> ba_overall (analyzeVisualBalance (uniform 4 4 0) 4 4) = NaN
   \<and> wellFormed (uniform 2 2 128) 2 2
   \<and> calculateLaplacianVariance (uniform 2 2 128) 2 2 = NaN
   \<and> ed_averageStrength (analyzeEdges (uniform 2 2 128) 2 2) = NaN"
  using weight_black [of 4 4] balance_black [of 4 4]
    variance_narrow [of "uniform 2 2 128" 2] edges_narrow [of "uniform 2 2 128" 2]
  by (simp add: wellFormed_uniform)

lemma column_balance:
  "ba_type (analyzeVisualBalance (uniform 1 2 128) 1 2) = ''dynamic''"
proof -
  have q: "calculateQuadrantWeight (uniform 1 2 128) 1 0 0 (1 div 2) (2 div 2) = 0"
    "calculateQuadrantWeight (uniform 1 2 128) 1 (1 div 2) 0 1 (2 div 2) = 128"
    "calculateQuadrantWeight (uniform 1 2 128) 1 0 (2 div 2) (1 div 2) 2 = 0"
    "calculateQuadrantWeight (uniform 1 2 128) 1 (1 div 2) (2 div 2) 1 2 = 128"
    by (simp_all add: quadrant_uniform)
  show ?thesis unfolding analyzeVisualBalance_def q Let_def by simp
qed

text \<open>
  C8, as the claim states it, fails: on the uniform gray buffer 1 pixel wide and 2 pixels
  high the two left quadrants are empty, calculateQuadrantWeight gives them the weight 0 by
  its guard, the horizontal balance is 0 and the balance type is 'dynamic'.
\<close>

theorem uniform_column_counterexample:
  "wellFormed (uniform 1 2 128) 1 2
   \<and> ba_type (analyzeVisualBalance (uniform 1 2 128) 1 2) = ''dynamic''"
  using column_balance by (simp add: wellFormed_uniform)

text \<open>
  C8, amended. For a buffer whose pixels all have the same value v: with width and height
  at least 3 the Laplacian variance is 0 and the average Sobel edge strength is 0; the
  overall symmetry is 100; with width and height at least 2 and v not 0 the balance type
  is 'symmetrical'; and the rule-of-thirds alignment is 0, no interest point surviving the
  contrast threshold.
\<close>

theorem uniform_buffer_measures:
  "(3 \<le> w \<and> 3 \<le> h \<longrightarrow>
      calculateLaplacianVariance (uniform w h v) w h = Fin 0
      \<and> ed_averageStrength (analyzeEdges (uniform w h v) w h) = Fin 0)
   \<and> (1 \<le> w \<and> 1 \<le> h \<longrightarrow> sy_overall (analyzeSymmetry (uniform w h v) w h) = Fin 100)
   \<and> (2 \<le> w \<and> 2 \<le> h \<and> 1 \<le> v \<longrightarrow>
      ba_type (analyzeVisualBalance (uniform w h v) w h) = ''symmetrical'')
   \<and> rt_alignment (analyzeRuleOfThirds (uniform w h v) w h) = Fin 0
   \<and> rt_interestPointCount (analyzeRuleOfThirds (uniform w h v) w h) = 0"
  using variance_uniform [of w h v] edges_uniform [of w h v] symmetry_uniform [of w h v]
    balance_uniform [of w h v] thirds_uniform [of w h v]
  by blast

theorem uniform_buffer_measures_witness:
  "(3::nat) \<le> 4 \<and> (1::nat) \<le> 128
   \<and> calculateLaplacianVariance (uniform 4 4 128) 4 4 = Fin 0
   \<and> ed_averageStrength (analyzeEdges (uniform 4 4 128) 4 4) = Fin 0
   \<and> sy_overall (analyzeSymmetry (uniform 4 4 128) 4 4) = Fin 100
   \<and> ba_type (analyzeVisualBalance (uniform 4 4 128) 4 4) = ''symmetrical''
   \<and> rt_alignment (analyzeRuleOfThirds (uniform 4 4 128) 4 4) = Fin 0"
  using uniform_buffer_measures [of 4 4 128] by simp

end
